theory Spec2Isabelle
  imports Complex_Main "HOL-Library.AList"
begin

section \<open>Numbers\<close>

text \<open>
  The driver computes with Python numbers. They are modelled as exact reals: binary
  representation error of \<^verbatim>\<open>float\<close> is outside the model, the decimal rounding that the
  code asks for with \<^verbatim>\<open>round(v, n)\<close> is inside it.

  \<^verbatim>\<open>round\<close> rounds to the nearest multiple of \<open>10\<^sup>-\<^sup>n\<close> and breaks a tie towards the
  even neighbour. Python makes that decision on the binary float, not on the decimal it
  was read from, so the two agree except where the decimal lies exactly half way between
  two multiples; \<open>round_float\<close> below covers that case for the numbers read from a
  status report.
\<close>

definition round_half_even :: "real \<Rightarrow> int" where
  "round_half_even v =
     (let f = \<lfloor>v\<rfloor>; d = v - of_int f in
      if d < 1 / 2 then f
      else if 1 / 2 < d then f + 1
      else if even f then f else f + 1)"

definition py_round :: "real \<Rightarrow> nat \<Rightarrow> real" where
  "py_round v n = of_int (round_half_even (v * 10 ^ n)) / 10 ^ n"

text \<open>
  \<^verbatim>\<open>round(float(text), n)\<close>, where the text is a decimal \<open>v\<close>. The float is the binary
  number nearest to \<open>v\<close>, and it is the float that Python rounds. When \<open>v\<close> lies
  exactly half way between two multiples of \<open>10\<^sup>-\<^sup>n\<close>, the result is the multiple on the
  side of \<open>v\<close> where the float lies, and the even one when the float is \<open>v\<close> itself.
  On which side of a decimal its float lies is a fact of binary representation, which the
  model of numbers as reals does not hold: \<open>float_side\<close> supplies it.
\<close>

datatype side = Below | Exact | Above

definition round_float :: "(real \<Rightarrow> side) \<Rightarrow> real \<Rightarrow> nat \<Rightarrow> real" where
  "round_float float_side v n =
     (let t = v * 10 ^ n; f = \<lfloor>t\<rfloor> in
      if t - of_int f = 1 / 2 then
        (case float_side v of
           Below \<Rightarrow> of_int f / 10 ^ n
         | Exact \<Rightarrow> py_round v n
         | Above \<Rightarrow> of_int (f + 1) / 10 ^ n)
      else py_round v n)"

text \<open>A number that \<^verbatim>\<open>round(v, n)\<close> leaves alone has at most \<open>n\<close> decimals.\<close>

definition decimals :: "nat \<Rightarrow> real \<Rightarrow> bool" where
  "decimals n v \<longleftrightarrow> py_round v n = v"

section \<open>Coordinates (tools.py)\<close>

text \<open>
  \<^verbatim>\<open>class Coordinates\<close> keeps three private attributes \<^verbatim>\<open>_x\<close>, \<^verbatim>\<open>_y\<close>, \<^verbatim>\<open>_z\<close>.
  Every setter stores \<^verbatim>\<open>round(value, 6)\<close> and every getter returns
  \<^verbatim>\<open>round(float(self._x), 6)\<close>. The setters reject a value that is not a number; the
  model types the values as reals, which leaves that branch out.
\<close>

record coordinates =
  stored_x :: real
  stored_y :: real
  stored_z :: real

definition Coordinates :: "real \<Rightarrow> real \<Rightarrow> real \<Rightarrow> coordinates" where
  "Coordinates x y z =
     \<lparr>stored_x = py_round x 6, stored_y = py_round y 6, stored_z = py_round z 6\<rparr>"

definition get_x :: "coordinates \<Rightarrow> real" where
  "get_x c = py_round (stored_x c) 6"

definition get_y :: "coordinates \<Rightarrow> real" where
  "get_y c = py_round (stored_y c) 6"

definition get_z :: "coordinates \<Rightarrow> real" where
  "get_z c = py_round (stored_z c) 6"

text \<open>\<^verbatim>\<open>__eq__\<close> compares what the getters return.\<close>

definition coordinates_eq :: "coordinates \<Rightarrow> coordinates \<Rightarrow> bool" where
  "coordinates_eq a b \<longleftrightarrow> get_x a = get_x b \<and> get_y a = get_y b \<and> get_z a = get_z b"

section \<open>Text\<close>

text \<open>
  What the driver does with text: \<^verbatim>\<open>s.startswith(p)\<close>, \<^verbatim>\<open>needle in s\<close> (also the
  regular expressions without metacharacters, which \<^verbatim>\<open>re.search\<close> finds iff the text
  contains them), \<^verbatim>\<open>s.lower()\<close>, \<^verbatim>\<open>s.strip()\<close> and \<^verbatim>\<open>s.rstrip()\<close>. The text from the
  device is ASCII.
\<close>

fun starts_with :: "string \<Rightarrow> string \<Rightarrow> bool" where
  "starts_with s [] = True"
| "starts_with [] (p # ps) = False"
| "starts_with (c # cs) (p # ps) = (c = p \<and> starts_with cs ps)"

fun contains :: "string \<Rightarrow> string \<Rightarrow> bool" where
  "contains [] needle = (needle = [])"
| "contains (c # cs) needle = (starts_with (c # cs) needle \<or> contains cs needle)"

definition lower_char :: "char \<Rightarrow> char" where
  "lower_char c =
     (case map_of (zip ''ABCDEFGHIJKLMNOPQRSTUVWXYZ'' ''abcdefghijklmnopqrstuvwxyz'') c of
        Some l \<Rightarrow> l
      | None \<Rightarrow> c)"

definition lower :: "string \<Rightarrow> string" where
  "lower s = map lower_char s"

definition is_space :: "char \<Rightarrow> bool" where
  "is_space c \<longleftrightarrow> (of_char c :: nat) \<in> {9, 10, 11, 12, 13, 28, 29, 30, 31, 32}"

definition rstrip :: "string \<Rightarrow> string" where
  "rstrip s = rev (dropWhile is_space (rev s))"

definition strip :: "string \<Rightarrow> string" where
  "strip s = rstrip (dropWhile is_space s)"

text \<open>
  \<^verbatim>\<open>int(s)\<close> and \<^verbatim>\<open>float(s)\<close> of a text, for the decimal notation that the controller
  prints: an optional sign, digits, and for a float at most one point with digits on at
  least one side of it. Both ignore surrounding white space and raise \<^verbatim>\<open>ValueError\<close>
  (here \<open>None\<close>) on other text. Python also reads exponents, underscores between digits,
  \<^verbatim>\<open>inf\<close> and \<^verbatim>\<open>nan\<close>; the model does not.
\<close>

definition is_digit :: "char \<Rightarrow> bool" where
  "is_digit c \<longleftrightarrow> (let n = (of_char c :: nat) in 48 \<le> n \<and> n \<le> 57)"

definition digit_value :: "char \<Rightarrow> nat" where
  "digit_value c = of_char c - 48"

definition decimal_value :: "string \<Rightarrow> nat" where
  "decimal_value ds = foldl (\<lambda>a c. 10 * a + digit_value c) 0 ds"

definition unsigned_int :: "string \<Rightarrow> int option" where
  "unsigned_int ds = (if ds \<noteq> [] \<and> list_all is_digit ds then Some (int (decimal_value ds)) else None)"

definition py_int :: "string \<Rightarrow> int option" where
  "py_int s =
     (case strip s of
        [] \<Rightarrow> None
      | c # cs \<Rightarrow>
          if c = CHR ''-'' then map_option uminus (unsigned_int cs)
          else if c = CHR ''+'' then unsigned_int cs
          else unsigned_int (c # cs))"

definition unsigned_float :: "string \<Rightarrow> real option" where
  "unsigned_float ds =
     (let ip = takeWhile is_digit ds; rest = dropWhile is_digit ds in
      case rest of
        [] \<Rightarrow> if ip = [] then None else Some (real (decimal_value ip))
      | c # fp \<Rightarrow>
          if c = CHR ''.'' \<and> list_all is_digit fp \<and> (ip \<noteq> [] \<or> fp \<noteq> [])
          then Some (real (decimal_value ip) + real (decimal_value fp) / 10 ^ length fp)
          else None)"

definition py_float :: "string \<Rightarrow> real option" where
  "py_float s =
     (case strip s of
        [] \<Rightarrow> None
      | c # cs \<Rightarrow>
          if c = CHR ''-'' then map_option uminus (unsigned_float cs)
          else if c = CHR ''+'' then unsigned_float cs
          else unsigned_float (c # cs))"

section \<open>Errors\<close>

text \<open>Every exception the modelled code raises, with its message where it has one.\<close>

datatype error =
    ValueError string
  | TypeError string
  | AttributeError string
  | KeyError string
  | IndexError
  | LocationNotFound
  | StatusReturnError string
  | CommandExecutionError string
  | MillConnectionError string
  | MillConfigError string
  | TransportError string

text \<open>
  The messages of the exceptions that the interpreter raises itself, in the wording of
  CPython 3.11: a name goes between single quotes.
\<close>

definition quoted :: "string \<Rightarrow> string" where
  "quoted name = [CHR 0x27] @ name @ [CHR 0x27]"

definition no_attribute :: "string \<Rightarrow> string \<Rightarrow> string" where
  "no_attribute type_name attribute =
     quoted type_name @ '' object has no attribute '' @ quoted attribute"

section \<open>Tool offsets (tools.py)\<close>

text \<open>
  A tool is named by a string or by a member of the \<^verbatim>\<open>Instruments\<close> enum, whose
  \<^verbatim>\<open>value\<close> is the string. \<open>Opaque\<close> stands for any other object, one without a
  \<^verbatim>\<open>value\<close> attribute.
\<close>

datatype tool_ref = Name string | Member string | Opaque

text \<open>
  The normalisation that opens \<^verbatim>\<open>add_tool\<close>, \<^verbatim>\<open>get_tool\<close>, \<^verbatim>\<open>get_offset\<close>,
  \<^verbatim>\<open>update_tool\<close> and \<^verbatim>\<open>Mill.safe_move\<close>.
\<close>

fun tool_key :: "tool_ref \<Rightarrow> error + string" where
  "tool_key (Name s) = Inr s"
| "tool_key (Member v) = Inr v"
| "tool_key Opaque = Inl (ValueError ''Invalid tool'')"

record tool_offset =
  name :: string
  offset :: coordinates

text \<open>
  What \<^verbatim>\<open>json.load\<close> finds in the tools file: no file, text that is not JSON, JSON of
  another shape than a list of tool records, or a list of tool records.
\<close>

datatype storage =
    Missing
  | Undecodable
  | Malformed
  | Stored "(string \<times> real \<times> real \<times> real) list"

text \<open>
  \<^verbatim>\<open>tool_offsets\<close> is a Python dict, which keeps insertion order: an association list
  with \<^const>\<open>AList.update\<close> (replace in place, or append) and \<^const>\<open>AList.delete\<close>.
\<close>

record tool_manager =
  json_file :: storage
  tool_offsets :: "(string \<times> tool_offset) list"

definition default_tool_json :: "(string \<times> real \<times> real \<times> real) list" where
  "default_tool_json =
     [(''center'', 0, 0, 0), (''pipette'', 0, 0, 0), (''electrode'', 0, 0, 0),
      (''decapper'', 0, 0, 0), (''lens'', 0, 0, 0)]"

definition from_dict :: "string \<times> real \<times> real \<times> real \<Rightarrow> tool_offset" where
  "from_dict item = (case item of (n, x, y, z) \<Rightarrow> \<lparr>name = n, offset = Coordinates x y z\<rparr>)"

definition to_dict :: "tool_offset \<Rightarrow> string \<times> real \<times> real \<times> real" where
  "to_dict t = (name t, get_x (offset t), get_y (offset t), get_z (offset t))"

text \<open>The dict comprehension \<^verbatim>\<open>{item["name"]: ToolOffset.from_dict(item) for item in data}\<close>.\<close>

definition tools_of_items ::
  "(string \<times> real \<times> real \<times> real) list \<Rightarrow> (string \<times> tool_offset) list" where
  "tools_of_items items = foldl (\<lambda>d item. AList.update (fst item) (from_dict item) d) [] items"

text \<open>
  \<^verbatim>\<open>load_tools\<close> returns the dict and, when the file is missing or is not JSON, writes
  the default set to the file first. Any other exception gives the empty dict.
\<close>

definition load_tools :: "storage \<Rightarrow> storage \<times> (string \<times> tool_offset) list" where
  "load_tools file =
     (case file of
        Stored items \<Rightarrow> (file, tools_of_items items)
      | Missing \<Rightarrow> (Stored default_tool_json, tools_of_items default_tool_json)
      | Undecodable \<Rightarrow> (Stored default_tool_json, tools_of_items default_tool_json)
      | Malformed \<Rightarrow> (file, []))"

definition default_tool :: tool_offset where
  "default_tool = \<lparr>name = ''center'', offset = Coordinates 0 0 0\<rparr>"

definition save_tools :: "tool_manager \<Rightarrow> tool_manager" where
  "save_tools tm = tm\<lparr>json_file := Stored (map (to_dict \<circ> snd) (tool_offsets tm))\<rparr>"

text \<open>\<^verbatim>\<open>ToolManager.__init__\<close>.\<close>

definition new_tool_manager :: "storage \<Rightarrow> tool_manager" where
  "new_tool_manager file =
     (case load_tools file of (file', tools) \<Rightarrow>
        if tools = []
        then save_tools \<lparr>json_file = file', tool_offsets = [(name default_tool, default_tool)]\<rparr>
        else \<lparr>json_file = file', tool_offsets = tools\<rparr>)"

text \<open>
  \<^verbatim>\<open>update_tool\<close> assigns the \<^verbatim>\<open>offset\<close> attribute of the stored object and keeps
  its name.
\<close>

definition update_tool :: "tool_manager \<Rightarrow> tool_ref \<Rightarrow> coordinates \<Rightarrow> error + tool_manager" where
  "update_tool tm tool new_offset =
     (case tool_key tool of
        Inl e \<Rightarrow> Inl e
      | Inr n \<Rightarrow>
          (case map_of (tool_offsets tm) n of
             Some t \<Rightarrow>
               Inr (save_tools
                 (tm\<lparr>tool_offsets := AList.update n (t\<lparr>offset := new_offset\<rparr>) (tool_offsets tm)\<rparr>))
           | None \<Rightarrow> Inl (ValueError (''Tool '' @ n @ '' not found''))))"

definition add_tool :: "tool_manager \<Rightarrow> tool_ref \<Rightarrow> coordinates \<Rightarrow> error + tool_manager" where
  "add_tool tm tool new_offset =
     (case tool_key tool of
        Inl e \<Rightarrow> Inl e
      | Inr n \<Rightarrow>
          (if n \<in> fst ` set (tool_offsets tm)
           then (case update_tool tm (Name n) new_offset of
                   Inl e \<Rightarrow> Inl e
                 | Inr tm' \<Rightarrow> Inr (save_tools tm'))
           else Inr (save_tools
                  (tm\<lparr>tool_offsets :=
                        AList.update n \<lparr>name = n, offset = new_offset\<rparr> (tool_offsets tm)\<rparr>))))"

text \<open>\<^verbatim>\<open>get_tool\<close> answers \<^verbatim>\<open>None\<close> for an unknown name.\<close>

definition get_tool :: "tool_manager \<Rightarrow> tool_ref \<Rightarrow> error + tool_offset option" where
  "get_tool tm tool =
     (case tool_key tool of
        Inl e \<Rightarrow> Inl e
      | Inr n \<Rightarrow> Inr (map_of (tool_offsets tm) n))"

text \<open>
  \<^verbatim>\<open>get_offset\<close> reads \<^verbatim>\<open>.offset\<close> of what \<^verbatim>\<open>dict.get\<close> returned, which for an unknown
  name is \<^verbatim>\<open>None\<close>: an \<^verbatim>\<open>AttributeError\<close>.
\<close>

definition get_offset :: "tool_manager \<Rightarrow> tool_ref \<Rightarrow> error + coordinates" where
  "get_offset tm tool =
     (case tool_key tool of
        Inl e \<Rightarrow> Inl e
      | Inr n \<Rightarrow>
          (case map_of (tool_offsets tm) n of
             None \<Rightarrow> Inl (AttributeError (no_attribute ''NoneType'' ''offset''))
           | Some t \<Rightarrow> Inr (offset t)))"

text \<open>
  \<^verbatim>\<open>delete_tool\<close> does not normalise its argument, which is looked up as it is: the
  model takes the string that the signature asks for.
\<close>

definition delete_tool :: "tool_manager \<Rightarrow> string \<Rightarrow> error + tool_manager" where
  "delete_tool tm n =
     (if n \<in> fst ` set (tool_offsets tm)
      then Inr (save_tools (tm\<lparr>tool_offsets := AList.delete n (tool_offsets tm)\<rparr>))
      else Inl (ValueError (''Tool '' @ n @ '' not found'')))"

section \<open>The mill (driver.py)\<close>

text \<open>
  The attributes of \<^verbatim>\<open>class Mill\<close> that the modelled methods read or write.
  \<^verbatim>\<open>config\<close> is the dict of controller settings, from key to text.
\<close>

record mill =
  config :: "string \<rightharpoonup> string"
  homed :: bool
  auto_home :: bool
  active_connection :: bool
  tool_manager :: tool_manager
  working_volume :: coordinates
  safe_z_height :: real
  max_z_height :: real
  interactive_mode :: bool

subsection \<open>Planning a move\<close>

text \<open>
  The planner formats its commands with f-strings. The model keeps the command and its
  numeric arguments and leaves the printing of a float out:
  \<^verbatim>\<open>G01 Z{z}\<close>, \<^verbatim>\<open>G01 X{x} Y{y}\<close>, \<^verbatim>\<open>G01 X{x}\<close>, \<^verbatim>\<open>G01 Y{y}\<close>,
  \<^verbatim>\<open>G01 Z{z} F{feed}\<close> and \<^verbatim>\<open>F{rate}\<close>.
\<close>

datatype gcode =
    G01_Z real
  | G01_XY real real
  | G01_X real
  | G01_Y real
  | G01_Z_F real real
  | F_rate real

definition is_already_at_target :: "coordinates \<Rightarrow> coordinates \<Rightarrow> bool" where
  "is_already_at_target goto current_coordinates \<longleftrightarrow>
     (get_x goto, get_y goto) = (get_x current_coordinates, get_y current_coordinates)
     \<and> get_z goto = get_z current_coordinates"

definition calculate_target_coordinates ::
  "mill \<Rightarrow> coordinates \<Rightarrow> coordinates \<Rightarrow> coordinates \<Rightarrow> coordinates" where
  "calculate_target_coordinates m goto current_coordinates offsets =
     Coordinates
       (get_x goto + get_x offsets)
       (get_y goto + get_y offsets)
       (max (get_z (working_volume m) + 3) (min (get_z goto + get_z offsets) (max_z_height m)))"

definition validate_target_coordinates :: "mill \<Rightarrow> coordinates \<Rightarrow> error + unit" where
  "validate_target_coordinates m target_coordinates =
     (if \<not> (get_x (working_volume m) \<le> get_x target_coordinates \<and> get_x target_coordinates \<le> 0)
      then Inl (ValueError ''x coordinate out of range'')
      else if \<not> (get_y (working_volume m) \<le> get_y target_coordinates
                   \<and> get_y target_coordinates \<le> 0)
      then Inl (ValueError ''y coordinate out of range'')
      else if \<not> (get_z (working_volume m) \<le> get_z target_coordinates
                   \<and> get_z target_coordinates \<le> max_z_height m)
      then Inl (ValueError ''z coordinate out of range'')
      else Inr ())"

definition generate_movement_commands ::
  "mill \<Rightarrow> coordinates \<Rightarrow> coordinates \<Rightarrow> bool \<Rightarrow> gcode list" where
  "generate_movement_commands m current_coordinates target_coordinates move_z_first =
     (if safe_z_height m \<le> get_z current_coordinates \<or> move_z_first
      then [G01_XY (get_x target_coordinates) (get_y target_coordinates),
            G01_Z (get_z target_coordinates)]
      else (if get_x target_coordinates \<noteq> get_x current_coordinates
            then [G01_X (get_x target_coordinates)] else [])
         @ (if get_y target_coordinates \<noteq> get_y current_coordinates
            then [G01_Y (get_y target_coordinates)] else [])
         @ (if get_z target_coordinates \<noteq> get_z current_coordinates
            then [G01_Z (get_z target_coordinates)] else [])
         @ (if get_z target_coordinates = get_z current_coordinates \<and> move_z_first
            then [G01_Z (get_z target_coordinates)] else []))"

text \<open>
  \<^verbatim>\<open>__should_move_to_safe_position_first\<close>. Its third parameter is optional and
  defaults to \<^verbatim>\<open>self.safe_z_height\<close>.
\<close>

definition should_move_to_safe_position_first ::
  "mill \<Rightarrow> coordinates \<Rightarrow> coordinates \<Rightarrow> real option \<Rightarrow> bool" where
  "should_move_to_safe_position_first m current destination safe_height_floor =
     (let floor_height = (case safe_height_floor of None \<Rightarrow> safe_z_height m | Some h \<Rightarrow> h) in
      if max_z_height m \<le> get_z current \<or> floor_height \<le> get_z current then False
      else if get_x current \<noteq> get_x destination \<or> get_y current \<noteq> get_y destination then True
      else False)"

text \<open>
  What a move method has decided when it stops planning: it returns the current position
  and sends nothing, or it hands one block of commands to \<^verbatim>\<open>execute_command\<close>. A
  raised exception is the left summand of the result and sends nothing either.
\<close>

datatype plan = AlreadyAtTarget coordinates | Execute "gcode list"

fun commands_sent :: "error + plan \<Rightarrow> gcode list" where
  "commands_sent (Inl e) = []"
| "commands_sent (Inr (AlreadyAtTarget c)) = []"
| "commands_sent (Inr (Execute cs)) = cs"

text \<open>
  \<^verbatim>\<open>safe_move\<close>, from its first line to the call of \<^verbatim>\<open>execute_command\<close>. The
  argument \<open>position_read\<close> is what \<^verbatim>\<open>self.current_coordinates()\<close> gives when the
  method asks the device: a position or an exception. \<open>goto\<close> is the requested
  position as a \<^verbatim>\<open>Coordinates\<close> object.
\<close>

definition safe_move ::
  "mill \<Rightarrow> error + coordinates \<Rightarrow> coordinates \<Rightarrow> tool_ref \<Rightarrow> real option \<Rightarrow> real
     \<Rightarrow> error + plan" where
  "safe_move m position_read goto tool second_z_cord second_z_cord_feed =
     (case tool_key tool of
        Inl e \<Rightarrow> Inl e
      | Inr tool_name \<Rightarrow>
     (case get_offset (tool_manager m) (Name tool_name) of
        Inl e \<Rightarrow> Inl e
      | Inr offsets \<Rightarrow>
     (case position_read of
        Inl e \<Rightarrow> Inl e
      | Inr current_coordinates \<Rightarrow>
     (let target_coordinates =
            calculate_target_coordinates m goto current_coordinates offsets in
      case validate_target_coordinates m target_coordinates of
        Inl e \<Rightarrow> Inl e
      | Inr u \<Rightarrow>
          if is_already_at_target target_coordinates current_coordinates
          then Inr (AlreadyAtTarget current_coordinates)
          else
            (let move_to_zero =
                   should_move_to_safe_position_first m current_coordinates target_coordinates
                     (Some (max_z_height m));
                 commands =
                   (if move_to_zero then [G01_Z (max_z_height m)] else [])
                   @ generate_movement_commands m current_coordinates target_coordinates
                       move_to_zero
                   @ (case second_z_cord of
                        None \<Rightarrow> []
                      | Some z2 \<Rightarrow> [G01_Z_F (z2 + get_z offsets) second_z_cord_feed, F_rate 2000])
             in Inr (Execute commands))))))"

text \<open>
  \<^verbatim>\<open>move_to_position\<close>, likewise up to the call of \<^verbatim>\<open>execute_command\<close>. It checks
  for the target being reached before it validates, and it never lifts first.
\<close>

definition move_to_position ::
  "mill \<Rightarrow> error + coordinates \<Rightarrow> coordinates \<Rightarrow> tool_ref \<Rightarrow> error + plan" where
  "move_to_position m position_read goto tool =
     (case get_offset (tool_manager m) tool of
        Inl e \<Rightarrow> Inl e
      | Inr offsets \<Rightarrow>
     (case position_read of
        Inl e \<Rightarrow> Inl e
      | Inr current_coordinates \<Rightarrow>
     (let target_coordinates =
            calculate_target_coordinates m goto current_coordinates offsets in
      if is_already_at_target target_coordinates current_coordinates
      then Inr (AlreadyAtTarget current_coordinates)
      else
        (case validate_target_coordinates m target_coordinates of
           Inl e \<Rightarrow> Inl e
         | Inr u \<Rightarrow>
             Inr (Execute
               (generate_movement_commands m current_coordinates target_coordinates False))))))"

subsection \<open>The serial device\<close>

text \<open>
  The controller is on the other side of a serial line, and the clock is the system's.
  The model scripts both: a \<open>device\<close> says what the \<open>k\<close>-th call of each primitive
  gives, and \<open>io\<close> counts the calls made so far and logs what was written.
  \<^item> \<open>read_results\<close>: the text \<^verbatim>\<open>Mill.read()\<close> returns, which is everything the port
    holds, or the empty text after the timeout of the port;
  \<^item> \<open>readline_results\<close>: the decoded line \<^verbatim>\<open>ser_mill.readline()\<close> returns;
  \<^item> \<open>readlines_results\<close>: the decoded lines \<^verbatim>\<open>ser_mill.readlines()\<close> returns;
  \<^item> \<open>time_results\<close>: the reading of \<^verbatim>\<open>time.time()\<close>;
  \<^item> \<open>write_results\<close>: the exception \<^verbatim>\<open>ser_mill.write\<close> raises, if it does.
  Reading is taken not to raise. \<^verbatim>\<open>time.sleep\<close> has no effect but on the clock, whose
  readings are scripted.
\<close>

record device =
  read_results :: "nat \<Rightarrow> string"
  readline_results :: "nat \<Rightarrow> string"
  readlines_results :: "nat \<Rightarrow> string list"
  time_results :: "nat \<Rightarrow> real"
  write_results :: "nat \<Rightarrow> error option"

record io =
  reads_done :: nat
  readline_done :: nat
  readlines_done :: nat
  times_done :: nat
  writes_done :: nat
  written :: "string list"

definition fresh_io :: io where
  "fresh_io =
     \<lparr>reads_done = 0, readline_done = 0, readlines_done = 0, times_done = 0, writes_done = 0,
      written = []\<rparr>"

text \<open>A finite script, continued with a default answer.\<close>

definition script :: "'a \<Rightarrow> 'a list \<Rightarrow> nat \<Rightarrow> 'a" where
  "script d xs k = (if k < length xs then xs ! k else d)"

definition mill_read :: "device \<Rightarrow> io \<Rightarrow> string \<times> io" where
  "mill_read dev s = (read_results dev (reads_done s), s\<lparr>reads_done := Suc (reads_done s)\<rparr>)"

definition ser_readline :: "device \<Rightarrow> io \<Rightarrow> string \<times> io" where
  "ser_readline dev s =
     (readline_results dev (readline_done s), s\<lparr>readline_done := Suc (readline_done s)\<rparr>)"

definition ser_readlines :: "device \<Rightarrow> io \<Rightarrow> string list \<times> io" where
  "ser_readlines dev s =
     (readlines_results dev (readlines_done s), s\<lparr>readlines_done := Suc (readlines_done s)\<rparr>)"

definition time_time :: "device \<Rightarrow> io \<Rightarrow> real \<times> io" where
  "time_time dev s = (time_results dev (times_done s), s\<lparr>times_done := Suc (times_done s)\<rparr>)"

definition ser_write :: "device \<Rightarrow> io \<Rightarrow> string \<Rightarrow> error option \<times> io" where
  "ser_write dev s payload =
     (case write_results dev (writes_done s) of
        Some e \<Rightarrow> (Some e, s\<lparr>writes_done := Suc (writes_done s)\<rparr>)
      | None \<Rightarrow>
          (None, s\<lparr>writes_done := Suc (writes_done s), written := written s @ [payload]\<rparr>))"

subsection \<open>Polling the status\<close>

text \<open>
  \<^verbatim>\<open>current_status\<close> returns a text, except on one path, where it returns the list of
  lines that \<^verbatim>\<open>readlines()\<close> gave. What follows applies \<^verbatim>\<open>in\<close> to the value: on a
  text it looks for a part of the text, on a list for an element.
\<close>

datatype status = Str string | StrList "string list"

fun py_in :: "string \<Rightarrow> status \<Rightarrow> bool" where
  "py_in token (Str text) = contains text token"
| "py_in token (StrList lines) = (token \<in> set lines)"

text \<open>
  The value inside an f-string: the text itself, or the list as Python prints it (with
  every line in single quotes; a line with a quote in it is printed otherwise).
\<close>

fun join :: "string \<Rightarrow> string list \<Rightarrow> string" where
  "join sep [] = []"
| "join sep [l] = l"
| "join sep (l # k # ls) = l @ sep @ join sep (k # ls)"

fun format_status :: "status \<Rightarrow> string" where
  "format_status (Str text) = text"
| "format_status (StrList lines) =
     ''['' @ join '', '' (map (\<lambda>l. [CHR 0x27] @ l @ [CHR 0x27]) lines) @ '']''"

text \<open>
  \<^verbatim>\<open>re.search(r"\b(error|alarm)\b", text)\<close>: one of the two words, with no letter,
  digit or underscore right before it or right after it.
\<close>

definition is_word_char :: "char \<Rightarrow> bool" where
  "is_word_char c \<longleftrightarrow>
     (let n = (of_char c :: nat) in
      (48 \<le> n \<and> n \<le> 57) \<or> (65 \<le> n \<and> n \<le> 90) \<or> n = 95 \<or> (97 \<le> n \<and> n \<le> 122))"

definition word_here :: "string \<Rightarrow> string \<Rightarrow> bool" where
  "word_here word text \<longleftrightarrow>
     starts_with text word
     \<and> (case drop (length word) text of [] \<Rightarrow> True | c # cs \<Rightarrow> \<not> is_word_char c)"

fun word_search :: "bool \<Rightarrow> string \<Rightarrow> bool" where
  "word_search after_word_char [] = False"
| "word_search after_word_char (c # cs) =
     ((\<not> after_word_char \<and> (word_here ''error'' (c # cs) \<or> word_here ''alarm'' (c # cs)))
      \<or> word_search (is_word_char c) cs)"

text \<open>
  The loop of \<^verbatim>\<open>current_status\<close>: while the text is empty or is \<^verbatim>\<open>ok\<close>, and at most
  five times, ask again and read.
\<close>

fun ask_again :: "nat \<Rightarrow> device \<Rightarrow> io \<Rightarrow> string \<Rightarrow> (error + string) \<times> io" where
  "ask_again 0 dev s status = (Inr status, s)"
| "ask_again (Suc attempt_limit) dev s status =
     (if status = [] \<or> status = ''ok'' then
        (case ser_write dev s ''?'' of
           (Some e, s1) \<Rightarrow> (Inl e, s1)
         | (None, s1) \<Rightarrow>
             (case mill_read dev s1 of (status', s2) \<Rightarrow> ask_again attempt_limit dev s2 status'))
      else (Inr status, s))"

definition current_status :: "bool \<Rightarrow> device \<Rightarrow> io \<Rightarrow> (error + status) \<times> io" where
  "current_status interactive dev s =
     (case mill_read dev s of
        (first, s1) \<Rightarrow>
          (case ask_again 5 dev s1 first of
             (Inl e, s2) \<Rightarrow> (Inl e, s2)
           | (Inr status, s2) \<Rightarrow>
               if status \<noteq> [] then (Inr (Str status), s2)
               else
                 (case ser_readlines dev s2 of
                    (raw_lines, s3) \<Rightarrow>
                      (let lines = map rstrip raw_lines in
                       if lines = [] then
                         (if interactive then (Inr (Str []), s3)
                          else (Inl (StatusReturnError ''Failed to get status from the mill''), s3))
                       else if list_ex (\<lambda>item. word_search False (lower item)) lines then
                         (if interactive then (Inr (Str []), s3)
                          else (Inl (StatusReturnError
                                  (''Error in status: '' @ format_status (StrList lines))), s3))
                       else (Inr (StrList lines), s3)))))"

subsection \<open>Waiting for a command to complete\<close>

text \<open>
  \<^verbatim>\<open>__wait_for_completion\<close>. The loop runs as long as the device keeps answering
  without \<^verbatim>\<open>Idle\<close> and the clock stays within the timeout, which nothing bounds: the
  model counts the iterations down from \<open>fuel\<close> and gives \<open>None\<close> when they run out.
  One iteration is the test of the \<^verbatim>\<open>while\<close> and the body after it. \<open>interactive\<close> is
  \<^verbatim>\<open>self.interactive_mode\<close>, which \<^verbatim>\<open>current_status\<close> reads.
\<close>

fun wait_loop ::
  "nat \<Rightarrow> bool \<Rightarrow> device \<Rightarrow> real \<Rightarrow> status \<Rightarrow> real \<Rightarrow> io \<Rightarrow> ((error + status) \<times> io) option" where
  "wait_loop 0 interactive dev timeout status start_time s = None"
| "wait_loop (Suc fuel) interactive dev timeout status start_time s =
     (if py_in ''Idle'' status then Some (Inr status, s)
      else
        (case (if py_in ''<Run'' status then time_time dev s else (start_time, s)) of
           (start_time', s1) \<Rightarrow>
             if py_in ''error'' status
             then Some (Inl (StatusReturnError (''Error in status: '' @ format_status status)), s1)
             else if py_in ''alarm'' status
             then Some (Inl (StatusReturnError (''Alarm in status: '' @ format_status status)), s1)
             else
               (case time_time dev s1 of
                  (now, s2) \<Rightarrow>
                    if timeout < now - start_time' then Some (Inr status, s2)
                    else
                      (case current_status interactive dev s2 of
                         (Inl e, s3) \<Rightarrow> Some (Inl e, s3)
                       | (Inr status', s3) \<Rightarrow>
                           wait_loop fuel interactive dev timeout status' start_time' s3))))"

definition wait_for_completion ::
  "nat \<Rightarrow> bool \<Rightarrow> device \<Rightarrow> io \<Rightarrow> status \<Rightarrow> real \<Rightarrow> ((error + status) \<times> io) option" where
  "wait_for_completion fuel interactive dev s incoming_status timeout =
     (case time_time dev s of
        (start_time, s1) \<Rightarrow>
          wait_loop fuel interactive dev timeout incoming_status start_time s1)"

subsection \<open>Executing a command\<close>

text \<open>\<^verbatim>\<open>str(e)\<close> of an exception, which \<^verbatim>\<open>execute_command\<close> puts in its own message.\<close>

fun error_text :: "error \<Rightarrow> string" where
  "error_text (ValueError msg) = msg"
| "error_text (TypeError msg) = msg"
| "error_text (AttributeError msg) = msg"
| "error_text (KeyError k) = [CHR 0x27] @ k @ [CHR 0x27]"
| "error_text IndexError = ''string index out of range''"
| "error_text LocationNotFound = []"
| "error_text (StatusReturnError msg) = msg"
| "error_text (CommandExecutionError msg) = msg"
| "error_text (MillConnectionError msg) = msg"
| "error_text (MillConfigError msg) = msg"
| "error_text (TransportError msg) = msg"

definition command_error :: "string \<Rightarrow> error \<Rightarrow> error" where
  "command_error command e =
     CommandExecutionError (''Error executing command '' @ command @ '': '' @ error_text e)"

text \<open>
  The answer to \<^verbatim>\<open>$$\<close>: lines are read until one is \<^verbatim>\<open>ok\<close>, which is dropped. The
  loop has no bound of its own either.
\<close>

fun read_until_ok :: "nat \<Rightarrow> device \<Rightarrow> io \<Rightarrow> (string list \<times> io) option" where
  "read_until_ok 0 dev s = None"
| "read_until_ok (Suc fuel) dev s =
     (case ser_readline dev s of
        (line, s1) \<Rightarrow>
          if rstrip line = ''ok'' then Some ([], s1)
          else
            (case read_until_ok fuel dev s1 of
               None \<Rightarrow> None
             | Some (ls, s2) \<Rightarrow> Some (rstrip line # ls, s2)))"

text \<open>The settings dict built from those lines.\<close>

definition parse_settings :: "string list \<Rightarrow> (string \<rightharpoonup> string)" where
  "parse_settings full_mill_response =
     foldl
       (\<lambda>settings_dict setting.
          if setting = [] then settings_dict
          else if starts_with setting ''[MSG'' \<or> contains setting ''Grbl'' then settings_dict
          else if CHR ''='' \<notin> set setting then settings_dict
          else settings_dict
                 (strip (takeWhile (\<lambda>c. c \<noteq> CHR ''='') setting) \<mapsto>
                  strip (tl (dropWhile (\<lambda>c. c \<noteq> CHR ''='') setting))))
       Map.empty full_mill_response"

datatype response = Text string | Settings "string \<rightharpoonup> string"

text \<open>
  \<^verbatim>\<open>execute_command\<close>. Everything between \<^verbatim>\<open>try\<close> and \<^verbatim>\<open>except\<close> that raises is
  raised again as \<^verbatim>\<open>CommandExecutionError\<close>; that includes the \<^verbatim>\<open>TypeError\<close> of
  \<^verbatim>\<open>re.search\<close> when the wait has returned a list. On \<^verbatim>\<open>error:22\<close> the method calls
  \<^verbatim>\<open>set_feed_rate(2000)\<close>, which is \<^verbatim>\<open>execute_command("F2000")\<close>, and then itself with
  the same command: \<open>fuel\<close> bounds the depth of these calls, and \<open>None\<close> says that it
  ran out. The command is ASCII text.
\<close>

fun execute_command ::
  "nat \<Rightarrow> bool \<Rightarrow> device \<Rightarrow> io \<Rightarrow> string \<Rightarrow> ((error + response) \<times> io) option" where
  "execute_command 0 interactive dev s command = None"
| "execute_command (Suc fuel) interactive dev s command =
     (case ser_write dev s (command @ [CHR 0x0A]) of
        (Some e, s1) \<Rightarrow> Some (Inl (command_error command e), s1)
      | (None, s1) \<Rightarrow>
          if command = ''$$'' then
            (case read_until_ok fuel dev s1 of
               None \<Rightarrow> None
             | Some (full_mill_response, s2) \<Rightarrow>
                 Some (Inr (Settings (parse_settings full_mill_response)), s2))
          else
            (case mill_read dev s1 of
               (raw, s2) \<Rightarrow>
                 (case (if starts_with command ''$'' then Some (Inr (Str (lower raw)), s2)
                        else wait_for_completion fuel interactive dev s2 (Str (lower raw)) 5) of
                    None \<Rightarrow> None
                  | Some (Inl e, s3) \<Rightarrow> Some (Inl (command_error command e), s3)
                  | Some (Inr (StrList lines), s3) \<Rightarrow>
                      Some (Inl (command_error command
                              (TypeError (''expected string or bytes-like object, got ''
                                          @ quoted ''list''))), s3)
                  | Some (Inr (Str mill_response), s3) \<Rightarrow>
                      if contains mill_response ''error'' \<or> contains mill_response ''alarm''
                      then
                        if contains mill_response ''error:22''
                        then
                          (case execute_command fuel interactive dev s3 ''F2000'' of
                             None \<Rightarrow> None
                           | Some (Inl e, s4) \<Rightarrow> Some (Inl (command_error command e), s4)
                           | Some (Inr r, s4) \<Rightarrow>
                               (case execute_command fuel interactive dev s4 command of
                                  None \<Rightarrow> None
                                | Some (Inl e, s5) \<Rightarrow>
                                    Some (Inl (command_error command e), s5)
                                | Some (Inr again, s5) \<Rightarrow> Some (Inr again, s5)))
                        else
                          Some (Inl (command_error command
                                  (StatusReturnError (''Error in status: '' @ mill_response))), s3)
                      else Some (Inr (Text mill_response), s3))))"

subsection \<open>Reading the position\<close>

text \<open>
  The two patterns \<^verbatim>\<open>WPos:([\d.-]+),([\d.-]+),([\d.-]+)\<close> and the same with \<^verbatim>\<open>MPos\<close>.
  A group is a run of digits, points and minus signs. The comma that must follow is not
  in that class, so a group can only be the longest run; \<^verbatim>\<open>search\<close> takes the leftmost
  place of the text where the pattern matches.
\<close>

definition in_group :: "char \<Rightarrow> bool" where
  "in_group c \<longleftrightarrow> is_digit c \<or> c = CHR ''.'' \<or> c = CHR ''-''"

definition match_here :: "string \<Rightarrow> string \<Rightarrow> (string \<times> string \<times> string) option" where
  "match_here tag s =
     (if \<not> starts_with s tag then None
      else
        (let r1 = drop (length tag) s;
             g1 = takeWhile in_group r1;
             g2 = takeWhile in_group (tl (dropWhile in_group r1));
             r3 = dropWhile in_group (tl (dropWhile in_group r1));
             g3 = takeWhile in_group (tl r3)
         in if g1 \<noteq> [] \<and> starts_with (dropWhile in_group r1) '','' \<and> g2 \<noteq> []
               \<and> starts_with r3 '','' \<and> g3 \<noteq> []
            then Some (g1, g2, g3) else None))"

fun pattern_search :: "string \<Rightarrow> string \<Rightarrow> (string \<times> string \<times> string) option" where
  "pattern_search tag [] = match_here tag []"
| "pattern_search tag (c # cs) =
     (case match_here tag (c # cs) of
        Some groups \<Rightarrow> Some groups
      | None \<Rightarrow> pattern_search tag cs)"

text \<open>\<^verbatim>\<open>int(self.config[key])\<close> and \<^verbatim>\<open>float(self.config[key])\<close>.\<close>

definition config_int :: "mill \<Rightarrow> string \<Rightarrow> error + int" where
  "config_int m key =
     (case config m key of
        None \<Rightarrow> Inl (KeyError key)
      | Some text \<Rightarrow>
          (case py_int text of
             None \<Rightarrow> Inl (ValueError (''invalid literal for int() with base 10: '' @ text))
           | Some v \<Rightarrow> Inr v))"

definition config_float :: "mill \<Rightarrow> string \<Rightarrow> error + real" where
  "config_float m key =
     (case config m key of
        None \<Rightarrow> Inl (KeyError key)
      | Some text \<Rightarrow>
          (case py_float text of
             None \<Rightarrow> Inl (ValueError (''could not convert string to float: '' @ text))
           | Some v \<Rightarrow> Inr v))"

definition group_float :: "string \<Rightarrow> error + real" where
  "group_float text =
     (case py_float text of
        None \<Rightarrow> Inl (ValueError (''could not convert string to float: '' @ text))
      | Some v \<Rightarrow> Inr v)"

text \<open>
  The loop that opens \<^verbatim>\<open>current_coordinates\<close>: up to three further reads while the
  text does not start with \<^verbatim>\<open><\<close>. Taking \<^verbatim>\<open>status[0]\<close> of an empty text raises
  \<^verbatim>\<open>IndexError\<close>.
\<close>

fun seek_report :: "nat \<Rightarrow> device \<Rightarrow> io \<Rightarrow> string \<Rightarrow> (error + string) \<times> io" where
  "seek_report attempts_left dev s [] = (Inl IndexError, s)"
| "seek_report 0 dev s (c # cs) = (Inr (c # cs), s)"
| "seek_report (Suc attempts_left) dev s (c # cs) =
     (if c = CHR ''<'' then (Inr (c # cs), s)
      else if contains (lower (c # cs)) ''alarm'' \<or> contains (lower (c # cs)) ''error''
      then (Inl (StatusReturnError (''Error in status: '' @ c # cs)), s)
      else (case mill_read dev s of (status, s1) \<Rightarrow> seek_report attempts_left dev s1 status))"

text \<open>
  What \<^verbatim>\<open>current_coordinates\<close> returns: the position of the mill centre, that of the
  tool head, or both.
\<close>

datatype position =
    Center coordinates
  | ToolHead coordinates
  | CenterAndToolHead coordinates coordinates

text \<open>
  The part of \<^verbatim>\<open>current_coordinates\<close> after the status text is there. The three
  attempts of the \<^verbatim>\<open>for\<close> loop search the same text, so they fail or succeed together.
  \<open>tool\<close> is \<open>None\<close> for a missing or empty argument. The three numbers of the report
  are rounded as floats, with \<open>float_side\<close> for the side of each.
\<close>

definition extract_coordinates ::
  "mill \<Rightarrow> (real \<Rightarrow> side) \<Rightarrow> string \<Rightarrow> tool_ref option \<Rightarrow> bool \<Rightarrow> error + position" where
  "extract_coordinates m float_side status tool tool_only =
     (case config_int m ''$10'' of
        Inl e \<Rightarrow> Inl e
      | Inr status_mode \<Rightarrow>
     if status_mode \<notin> {0, 1, 2, 3} then Inl (ValueError ''Invalid status mode'')
     else
     (case config_float m ''$27'' of
        Inl e \<Rightarrow> Inl e
      | Inr homing_pull_off \<Rightarrow>
     (let coord_type = (if status_mode \<in> {0, 2} then ''WPos'' else ''MPos'') in
      case pattern_search (coord_type @ '':'') status of
        None \<Rightarrow> Inl LocationNotFound
      | Some (g1, g2, g3) \<Rightarrow>
     (case group_float g1 of Inl e \<Rightarrow> Inl e | Inr f1 \<Rightarrow>
     (case group_float g2 of Inl e \<Rightarrow> Inl e | Inr f2 \<Rightarrow>
     (case group_float g3 of Inl e \<Rightarrow> Inl e | Inr f3 \<Rightarrow>
     (let shift = (if coord_type = ''MPos'' then homing_pull_off else 0);
          x_coord = round_float float_side f1 3 + shift;
          y_coord = round_float float_side f2 3 + shift;
          z_coord = round_float float_side f3 3 + shift;
          mill_center = Coordinates x_coord y_coord z_coord
      in case tool of
           None \<Rightarrow> Inr (Center mill_center)
         | Some t \<Rightarrow>
             (case get_offset (tool_manager m) t of
                Inl e \<Rightarrow> Inl (ValueError ''Invalid instrument'')
              | Inr offsets \<Rightarrow>
                  (let tool_head =
                         Coordinates (x_coord - get_x offsets) (y_coord - get_y offsets)
                           (z_coord - get_z offsets)
                   in if tool_only then Inr (ToolHead tool_head)
                      else Inr (CenterAndToolHead mill_center tool_head))))))))))"

definition current_coordinates ::
  "mill \<Rightarrow> (real \<Rightarrow> side) \<Rightarrow> device \<Rightarrow> io \<Rightarrow> tool_ref option \<Rightarrow> bool
     \<Rightarrow> (error + position) \<times> io" where
  "current_coordinates m float_side dev s tool tool_only =
     (case ser_write dev s ''?'' of
        (Some e, s1) \<Rightarrow> (Inl e, s1)
      | (None, s1) \<Rightarrow>
          (case mill_read dev s1 of
             (first, s2) \<Rightarrow>
               (case seek_report 3 dev s2 first of
                  (Inl e, s3) \<Rightarrow> (Inl e, s3)
                | (Inr status, s3) \<Rightarrow>
                    (extract_coordinates m float_side status tool tool_only, s3))))"

text \<open>\<^verbatim>\<open>check_max_z_height\<close>, given the position that \<^verbatim>\<open>current_coordinates()\<close> returned.\<close>

definition check_max_z_height :: "mill \<Rightarrow> coordinates \<Rightarrow> mill" where
  "check_max_z_height m current =
     (if get_z current \<noteq> 0 then m\<lparr>max_z_height := get_z current\<rparr> else m)"

subsection \<open>The working volume and the connection\<close>

definition read_working_volume :: "mill \<Rightarrow> error + coordinates" where
  "read_working_volume m =
     (case config_int m ''$20'' of
        Inl e \<Rightarrow> Inl e
      | Inr soft_limits \<Rightarrow>
          if soft_limits = 1 then
            (case config_float m ''$130'' of Inl e \<Rightarrow> Inl e | Inr travel_x \<Rightarrow>
            (case config_float m ''$131'' of Inl e \<Rightarrow> Inl e | Inr travel_y \<Rightarrow>
            (case config_float m ''$132'' of Inl e \<Rightarrow> Inl e | Inr travel_z \<Rightarrow>
               Inr (Coordinates (travel_x * - 1) (travel_y * - 1) (travel_z * - 1)))))
          else Inr (Coordinates (- 415) (- 300) (- 200)))"

text \<open>
  \<^verbatim>\<open>Mill.__init__\<close>, given the dict read from the configuration file and the content of
  the tools file.
\<close>

definition new_mill :: "(string \<rightharpoonup> string) \<Rightarrow> storage \<Rightarrow> error + mill" where
  "new_mill file_config tools_file =
     (let m =
        \<lparr>config = file_config, homed = False, auto_home = True, active_connection = False,
         tool_manager = new_tool_manager tools_file, working_volume = Coordinates 0 0 0,
         safe_z_height = - 10, max_z_height = 0, interactive_mode = False\<rparr>
      in case read_working_volume m of
           Inl e \<Rightarrow> Inl e
         | Inr volume \<Rightarrow> Inr (m\<lparr>working_volume := volume\<rparr>))"

text \<open>
  \<^verbatim>\<open>check_for_alarm_state\<close> returns nothing; \<open>None\<close> here is the return without an
  exception. \<^verbatim>\<open>Mill.read()\<close> returns a \<^verbatim>\<open>str\<close>, so for a text that is not empty the
  call \<^verbatim>\<open>status[-1].decode()\<close> raises \<^verbatim>\<open>AttributeError\<close>, and so does
  \<^verbatim>\<open>status.lower()\<close> when \<^verbatim>\<open>current_status\<close> has returned a list. \<^verbatim>\<open>reset()\<close> is
  \<^verbatim>\<open>execute_command("$X")\<close>.
\<close>

definition check_for_alarm_state ::
  "nat \<Rightarrow> bool \<Rightarrow> device \<Rightarrow> io \<Rightarrow> (error option \<times> io) option" where
  "check_for_alarm_state fuel interactive dev s =
     (case mill_read dev s of
        (first, s1) \<Rightarrow>
          if first \<noteq> [] then Some (Some (AttributeError (no_attribute ''str'' ''decode'')), s1)
          else
            (case current_status interactive dev s1 of
               (Inl e, s2) \<Rightarrow> Some (Some e, s2)
             | (Inr (StrList lines), s2) \<Rightarrow>
                 Some (Some (AttributeError (no_attribute ''list'' ''lower'')), s2)
             | (Inr (Str status), s2) \<Rightarrow>
                 if status = []
                 then Some (Some (MillConnectionError ''Failed to get status from the mill''), s2)
                 else
                   (case (if contains (lower status) ''alarm''
                          then execute_command fuel interactive dev s2 ''$X''
                          else Some (Inr (Text []), s2)) of
                      None \<Rightarrow> None
                    | Some (Inl e, s3) \<Rightarrow> Some (Some e, s3)
                    | Some (Inr r, s3) \<Rightarrow>
                        if contains (lower status) ''error''
                        then Some (Some (MillConnectionError (''Error in status: '' @ status)), s3)
                        else Some (None, s3))))"

text \<open>
  \<^verbatim>\<open>connect_to_mill\<close>. Two steps are answers of the surroundings: \<open>port_opens\<close> says
  whether the search for the port ends with an open connection (otherwise the \<^verbatim>\<open>try\<close>
  block raises), \<open>file_writable\<close> whether the configuration file can be written. The
  settings come from \<^verbatim>\<open>execute_command("$$")\<close>, which answers with a dict and never with
  a text. The value that \<^verbatim>\<open>self.read_working_volume()\<close> returns is not assigned to
  anything; only an exception of that call has an effect. \<^verbatim>\<open>clear_buffers\<close> changes
  nothing that the model keeps.
\<close>

definition connect_to_mill ::
  "nat \<Rightarrow> mill \<Rightarrow> bool \<Rightarrow> bool \<Rightarrow> device \<Rightarrow> io \<Rightarrow> ((error + mill) \<times> io) option" where
  "connect_to_mill fuel m port_opens file_writable dev s =
     (if \<not> port_opens then Some (Inl (MillConnectionError ''Error connecting to the mill''), s)
      else
        (case execute_command fuel (interactive_mode m) dev s ''$$'' of
           None \<Rightarrow> None
         | Some (Inl e, s1) \<Rightarrow> Some (Inl (MillConfigError ''Error reading mill config''), s1)
         | Some (Inr (Text t), s1) \<Rightarrow> Some (Inl (MillConfigError ''Error reading mill config''), s1)
         | Some (Inr (Settings mill_config), s1) \<Rightarrow>
             (let m1 = m\<lparr>active_connection := True, config := mill_config\<rparr> in
              if \<not> file_writable
              then Some (Inl (MillConfigError ''Error writing mill config to file''), s1)
              else
                (case read_working_volume m1 of
                   Inl e \<Rightarrow> Some (Inl e, s1)
                 | Inr unused \<Rightarrow>
                     (case check_for_alarm_state fuel (interactive_mode m) dev s1 of
                        None \<Rightarrow> None
                      | Some (Some e, s2) \<Rightarrow> Some (Inl e, s2)
                      | Some (None, s2) \<Rightarrow> Some (Inr m1, s2))))))"

section \<open>Sequences of tool-store operations\<close>

text \<open>
  The four public operations of \<^verbatim>\<open>ToolManager\<close> as data. An operation that raises
  leaves the store as it was: each method raises before it changes anything.
\<close>

datatype tool_op =
    Add tool_ref coordinates
  | Get tool_ref
  | Update tool_ref coordinates
  | Delete string

fun apply_tool_op :: "tool_manager \<Rightarrow> tool_op \<Rightarrow> tool_manager" where
  "apply_tool_op tm (Add tool c) = (case add_tool tm tool c of Inl e \<Rightarrow> tm | Inr tm' \<Rightarrow> tm')"
| "apply_tool_op tm (Get tool) = tm"
| "apply_tool_op tm (Update tool c) =
     (case update_tool tm tool c of Inl e \<Rightarrow> tm | Inr tm' \<Rightarrow> tm')"
| "apply_tool_op tm (Delete n) = (case delete_tool tm n of Inl e \<Rightarrow> tm | Inr tm' \<Rightarrow> tm')"

definition apply_tool_ops :: "tool_manager \<Rightarrow> tool_op list \<Rightarrow> tool_manager" where
  "apply_tool_ops tm ops = foldl apply_tool_op tm ops"

text \<open>The key an operation writes to or removes, if it has one.\<close>

fun written_key :: "tool_op \<Rightarrow> string option" where
  "written_key (Add tool c) = (case tool_key tool of Inl e \<Rightarrow> None | Inr n \<Rightarrow> Some n)"
| "written_key (Get tool) = None"
| "written_key (Update tool c) = (case tool_key tool of Inl e \<Rightarrow> None | Inr n \<Rightarrow> Some n)"
| "written_key (Delete n) = None"

fun removed_key :: "tool_op \<Rightarrow> string option" where
  "removed_key (Delete n) = Some n"
| "removed_key other = None"

text \<open>The store has a tool named \<open>center\<close> whose offset reads (0, 0, 0).\<close>

definition has_center :: "tool_manager \<Rightarrow> bool" where
  "has_center tm =
     (case map_of (tool_offsets tm) ''center'' of
        None \<Rightarrow> False
      | Some t \<Rightarrow> name t = ''center'' \<and> coordinates_eq (offset t) (Coordinates 0 0 0))"

section \<open>Example machines\<close>

text \<open>
  The machine of the \<^verbatim>\<open>mock_mill\<close> fixture in \<^verbatim>\<open>tests/test_mill.py\<close>: ceiling 0, safe
  height -10, the default working volume, and the default set of tools.
\<close>

definition mock_mill :: mill where
  "mock_mill =
     \<lparr>config = Map.empty, homed = True, auto_home = True, active_connection = True,
      tool_manager = new_tool_manager Missing,
      working_volume = Coordinates (- 415) (- 300) (- 200),
      safe_z_height = - 10, max_z_height = 0, interactive_mode = False\<rparr>"

text \<open>
  The same machine after homing with a pull-off of 1 in machine coordinates, where the
  reported position is (1, 1, 1) and the ceiling found by \<^verbatim>\<open>check_max_z_height\<close> is 1
  (the situation that \<^verbatim>\<open>test_cnc_move.py\<close> describes).
\<close>

definition pulled_off_mill :: mill where
  "pulled_off_mill = mock_mill\<lparr>max_z_height := 1\<rparr>"

text \<open>
  A configuration file that says: positions in machine coordinates, soft limits off,
  pull-off 1.
\<close>

definition file_config :: "string \<rightharpoonup> string" where
  "file_config = [''$10'' \<mapsto> ''1'', ''$20'' \<mapsto> ''0'', ''$27'' \<mapsto> ''1.000'']"

text \<open>
  A controller with soft limits on and travels of 200, 200 and 100, idle and silent when
  the connection opens.
\<close>

definition grbl_device :: device where
  "grbl_device =
     \<lparr>read_results = script [] [[], ''<Idle|MPos:0.000,0.000,0.000|FS:0,0>''],
      readline_results =
        script []
          [''$10=1'', ''$20=1'', ''$27=1.000'', ''$130=200.000'', ''$131=200.000'',
           ''$132=100.000'', ''ok''],
      readlines_results = script [] [],
      time_results = script 0 [],
      write_results = script None []\<rparr>"

text \<open>
  Two status reports in machine coordinates with a fourth decimal, and the controllers
  that answer with them. The numbers of the first are not half way between two
  thousandths, those of the second are.
\<close>

definition fine_report :: string where
  "fine_report = ''<Idle|MPos:-10.0004,-20.0006,-5.0004|FS:0,0>''"

definition fine_reporting_device :: device where
  "fine_reporting_device =
     \<lparr>read_results = script [] [fine_report],
      readline_results = script [] [],
      readlines_results = script [] [],
      time_results = script 0 [],
      write_results = script None []\<rparr>"

definition tie_report :: string where
  "tie_report = ''<Idle|MPos:0.0005,-10.0005,2.6745|FS:0,0>''"

definition tie_reporting_device :: device where
  "tie_reporting_device =
     \<lparr>read_results = script [] [tie_report],
      readline_results = script [] [],
      readlines_results = script [] [],
      time_results = script 0 [],
      write_results = script None []\<rparr>"

text \<open>
  The sides of the three numbers of the second report in IEEE double precision: the
  floats of 0.0005 and 2.6745 lie above them, that of -10.0005 lies below it. For the
  numbers of the first report the side decides nothing.
\<close>

definition double_side :: "real \<Rightarrow> side" where
  "double_side v =
     (if v = 0.0005 \<or> v = 2.6745 then Above else if v = - 10.0005 then Below else Exact)"

definition machine_mode_mill :: mill where
  "machine_mode_mill = mock_mill\<lparr>config := file_config\<rparr>"

text \<open>
  A controller in the middle of a long move: two reports of \<^verbatim>\<open>Run\<close>, then \<^verbatim>\<open>Idle\<close>,
  while the clock reads 0, 1, 4, 6, 9, 12 and then 100.
\<close>

definition moving_device :: device where
  "moving_device =
     \<lparr>read_results =
        script ''<Idle|MPos:-9.000,0.000,0.000|FS:0,0>''
          [''<Run|MPos:-3.000,0.000,0.000|FS:500,0>'',
           ''<Run|MPos:-6.000,0.000,0.000|FS:500,0>''],
      readline_results = script [] [],
      readlines_results = script [] [],
      time_results = script 100 [0, 1, 4, 6, 9, 12],
      write_results = script None []\<rparr>"

text \<open>
  A controller that answers \<^verbatim>\<open>error:22\<close> to the first two executions of a command and
  \<^verbatim>\<open>ok\<close> to the third and to \<^verbatim>\<open>F2000\<close>, and reports \<^verbatim>\<open>Idle\<close> when asked for its
  status.
\<close>

definition unset_feed_device :: device where
  "unset_feed_device =
     \<lparr>read_results =
        script ''ok''
          [''error:22'', ''ok'', ''<Idle|MPos:0.000,0.000,0.000|FS:0,0>'',
           ''error:22'', ''ok'', ''<Idle|MPos:0.000,0.000,0.000|FS:0,0>'', ''ok''],
      readline_results = script [] [],
      readlines_results = script [] [],
      time_results = script 0 [],
      write_results = script None []\<rparr>"

text \<open>
  A controller that answers \<^verbatim>\<open>error:22\<close> to the first \<open>k\<close> executions of a command,
  \<^verbatim>\<open>ok\<close> to each \<^verbatim>\<open>F2000\<close> and to every later command, and reports \<^verbatim>\<open>Idle\<close> when asked
  for its status after \<^verbatim>\<open>F2000\<close>.
\<close>

definition stubborn_device :: "nat \<Rightarrow> device" where
  "stubborn_device k =
     \<lparr>read_results =
        (\<lambda>n. if n < 3 * k
              then (if n mod 3 = 0 then ''error:22''
                    else if n mod 3 = 1 then ''ok''
                    else ''<Idle|MPos:0.000,0.000,0.000|FS:0,0>'')
              else ''ok''),
      readline_results = script [] [],
      readlines_results = script [] [],
      time_results = script 0 [],
      write_results = script None []\<rparr>"

section \<open>Properties of rounding\<close>

text \<open>
  A rounded number is an integer number of units of \<open>10\<^sup>-\<^sup>n\<close>; sums, maxima and minima of
  such numbers are such numbers.
\<close>

lemma round_half_even_of_int: "round_half_even (of_int i) = i"
  by (simp add: round_half_even_def)

lemma py_round_of_int_div: "py_round (of_int i / 10 ^ n) n = of_int i / 10 ^ n"
  by (simp add: py_round_def round_half_even_of_int)

lemma decimals_iff: "decimals n v \<longleftrightarrow> (\<exists>i::int. v = of_int i / 10 ^ n)"
proof
  assume "decimals n v"
  then have "v = of_int (round_half_even (v * 10 ^ n)) / 10 ^ n"
    by (simp add: decimals_def py_round_def)
  then show "\<exists>i::int. v = of_int i / 10 ^ n" by blast
next
  assume "\<exists>i::int. v = of_int i / 10 ^ n"
  then show "decimals n v"
    by (auto simp: decimals_def py_round_of_int_div)
qed

lemma decimals_py_round: "decimals n (py_round v n)"
  unfolding decimals_iff py_round_def by blast

lemma decimals_add: "decimals n a \<Longrightarrow> decimals n b \<Longrightarrow> decimals n (a + b)"
  unfolding decimals_iff
proof -
  assume "\<exists>i::int. a = of_int i / 10 ^ n" "\<exists>j::int. b = of_int j / 10 ^ n"
  then obtain i j :: int where "a = of_int i / 10 ^ n" "b = of_int j / 10 ^ n" by blast
  then have "a + b = of_int (i + j) / 10 ^ n" by (simp add: add_divide_distrib)
  then show "\<exists>k::int. a + b = of_int k / 10 ^ n" by blast
qed

lemma decimals_of_int: "decimals n (of_int k)"
  unfolding decimals_iff
proof
  show "(of_int k :: real) = of_int (k * 10 ^ n) / 10 ^ n" by simp
qed

lemma decimals_numeral: "decimals n (numeral k)"
  using decimals_of_int [of n "numeral k"] by simp

lemma decimals_zero: "decimals n 0"
  using decimals_of_int [of n 0] by simp

lemma decimals_max: "decimals n a \<Longrightarrow> decimals n b \<Longrightarrow> decimals n (max a b)"
  by (simp add: max_def)

lemma decimals_min: "decimals n a \<Longrightarrow> decimals n b \<Longrightarrow> decimals n (min a b)"
  by (simp add: min_def)

lemma py_round_idem: "py_round (py_round v n) n = py_round v n"
  using decimals_py_round [of n v] by (simp add: decimals_def)

section \<open>Properties of the planner\<close>

subsection \<open>The resolved target\<close>

lemma get_Coordinates [simp]:
  "get_x (Coordinates a b c) = py_round a 6"
  "get_y (Coordinates a b c) = py_round b 6"
  "get_z (Coordinates a b c) = py_round c 6"
  by (simp_all add: get_x_def get_y_def get_z_def Coordinates_def py_round_idem)

lemma decimals_get:
  "decimals 6 (get_x c)" "decimals 6 (get_y c)" "decimals 6 (get_z c)"
  by (simp_all add: get_x_def get_y_def get_z_def decimals_py_round)

lemma py_round_decimals: "decimals n v \<Longrightarrow> py_round v n = v"
  by (simp add: decimals_def)

text \<open>
  The ceiling has at most six decimals from the start, and \<^verbatim>\<open>check_max_z_height\<close>
  keeps it so.
\<close>

lemma new_mill_max_z_height:
  assumes "new_mill file_config tools_file = Inr m"
  shows "decimals 6 (max_z_height m)"
  using assms by (auto simp: new_mill_def Let_def decimals_zero split: sum.splits)

lemma check_max_z_height_decimals:
  assumes "decimals 6 (max_z_height m)"
  shows "decimals 6 (max_z_height (check_max_z_height m current))"
  using assms by (simp add: check_max_z_height_def decimals_get)

text \<open>
  Claim C2. The resolved target is the requested position plus the tool offset on X and
  on Y, and on Z the sum clamped between \<open>working_volume.z + 3\<close> and \<open>max_z_height\<close>.
  All of these are values a \<^verbatim>\<open>Coordinates\<close> object returns, so the rounding of the
  constructor changes nothing, provided \<open>max_z_height\<close> itself has at most six decimals.
  The driver keeps it so: it is 0.0 at first and \<^verbatim>\<open>check_max_z_height\<close> assigns it the
  \<^verbatim>\<open>z\<close> of a \<^verbatim>\<open>Coordinates\<close> object.
\<close>

theorem calculate_target_coordinates_resolved:
  assumes "decimals 6 (max_z_height m)"
  shows "get_x (calculate_target_coordinates m goto current offsets) = get_x goto + get_x offsets
       \<and> get_y (calculate_target_coordinates m goto current offsets) = get_y goto + get_y offsets
       \<and> get_z (calculate_target_coordinates m goto current offsets) =
           max (get_z (working_volume m) + 3) (min (get_z goto + get_z offsets) (max_z_height m))"
proof -
  have "decimals 6 (get_z (working_volume m) + 3)"
    by (intro decimals_add decimals_get decimals_numeral)
  moreover have "decimals 6 (min (get_z goto + get_z offsets) (max_z_height m))"
    by (intro decimals_min decimals_add decimals_get assms)
  ultimately have "decimals 6
      (max (get_z (working_volume m) + 3) (min (get_z goto + get_z offsets) (max_z_height m)))"
    by (rule decimals_max)
  then show ?thesis
    by (simp add: calculate_target_coordinates_def py_round_decimals decimals_add decimals_get)
qed

text \<open>Rounding leaves the integers alone, which evaluates the examples.\<close>

lemma py_round_numeral [simp]: "py_round (numeral k) n = numeral k"
  by (rule py_round_decimals) (rule decimals_numeral)

lemma py_round_neg_numeral [simp]: "py_round (- numeral k) n = - numeral k"
  using decimals_of_int [of n "- numeral k"] by (simp add: py_round_decimals)

lemma py_round_one [simp]: "py_round 1 n = 1"
  using decimals_of_int [of n 1] by (simp add: py_round_decimals)

lemma py_round_zero [simp]: "py_round 0 n = 0"
  by (rule py_round_decimals) (rule decimals_zero)

text \<open>
  The example of the specification: offset (10, 10, 10), request (-200, -200, -75), ceiling
  0 and the default working volume resolve to (-190, -190, -65).
\<close>

theorem calculate_target_coordinates_resolved_witness:
  "decimals 6 (max_z_height mock_mill)
   \<and> get_x (calculate_target_coordinates mock_mill (Coordinates (- 200) (- 200) (- 75))
        (Coordinates (- 100) (- 100) (- 50)) (Coordinates 10 10 10)) = - 190
   \<and> get_y (calculate_target_coordinates mock_mill (Coordinates (- 200) (- 200) (- 75))
        (Coordinates (- 100) (- 100) (- 50)) (Coordinates 10 10 10)) = - 190
   \<and> get_z (calculate_target_coordinates mock_mill (Coordinates (- 200) (- 200) (- 75))
        (Coordinates (- 100) (- 100) (- 50)) (Coordinates 10 10 10)) = - 65"
proof -
  have h: "decimals 6 (max_z_height mock_mill)"
    by (simp add: mock_mill_def decimals_zero)
  show ?thesis
    using h calculate_target_coordinates_resolved [OF h, of "Coordinates (- 200) (- 200) (- 75)"
        "Coordinates (- 100) (- 100) (- 50)" "Coordinates 10 10 10"]
    by (simp add: mock_mill_def)
qed

subsection \<open>Validation\<close>

lemma get_offset_key:
  assumes "get_offset tm tool = Inr offsets"
  obtains n where "tool_key tool = Inr n" "get_offset tm (Name n) = Inr offsets"
  using assms by (cases tool) (auto simp: get_offset_def)

lemma validate_out_of_range:
  assumes "\<not> (get_x (working_volume m) \<le> get_x t \<and> get_x t \<le> 0)
         \<or> \<not> (get_y (working_volume m) \<le> get_y t \<and> get_y t \<le> 0)
         \<or> \<not> (get_z (working_volume m) \<le> get_z t \<and> get_z t \<le> max_z_height m)"
  shows "validate_target_coordinates m t =
           Inl (ValueError
             ((if \<not> (get_x (working_volume m) \<le> get_x t \<and> get_x t \<le> 0) then ''x''
               else if \<not> (get_y (working_volume m) \<le> get_y t \<and> get_y t \<le> 0) then ''y''
               else ''z'') @ '' coordinate out of range''))"
  using assms unfolding validate_target_coordinates_def by auto

lemma safe_move_validates:
  assumes "get_offset (tool_manager m) tool = Inr offsets"
    and "validate_target_coordinates m (calculate_target_coordinates m goto current offsets) = Inl e"
  shows "safe_move m (Inr current) goto tool z2 feed = Inl e"
proof -
  from assms(1) obtain n where "tool_key tool = Inr n"
    "get_offset (tool_manager m) (Name n) = Inr offsets" by (rule get_offset_key)
  with assms(2) show ?thesis by (simp add: safe_move_def)
qed

text \<open>
  Claim C3. When the resolved target of a \<^verbatim>\<open>safe_move\<close> request is out of bounds on some
  axis (X outside \<open>[working_volume.x, 0]\<close>, Y outside \<open>[working_volume.y, 0]\<close> or Z outside
  \<open>[working_volume.z, max_z_height]\<close>), the method raises \<^verbatim>\<open>ValueError\<close> with the message
  that names the first such axis in the order x, y, z, and hands no command to
  \<^verbatim>\<open>execute_command\<close>. (The status query that read the current position went out
  before.)
\<close>

theorem safe_move_out_of_range:
  assumes "get_offset (tool_manager m) tool = Inr offsets"
    and "target = calculate_target_coordinates m goto current offsets"
    and "\<not> (get_x (working_volume m) \<le> get_x target \<and> get_x target \<le> 0)
       \<or> \<not> (get_y (working_volume m) \<le> get_y target \<and> get_y target \<le> 0)
       \<or> \<not> (get_z (working_volume m) \<le> get_z target \<and> get_z target \<le> max_z_height m)"
  shows "safe_move m (Inr current) goto tool z2 feed =
           Inl (ValueError
             ((if \<not> (get_x (working_volume m) \<le> get_x target \<and> get_x target \<le> 0) then ''x''
               else if \<not> (get_y (working_volume m) \<le> get_y target \<and> get_y target \<le> 0) then ''y''
               else ''z'') @ '' coordinate out of range''))
       \<and> commands_sent (safe_move m (Inr current) goto tool z2 feed) = []"
proof -
  have "safe_move m (Inr current) goto tool z2 feed =
           Inl (ValueError
             ((if \<not> (get_x (working_volume m) \<le> get_x target \<and> get_x target \<le> 0) then ''x''
               else if \<not> (get_y (working_volume m) \<le> get_y target \<and> get_y target \<le> 0) then ''y''
               else ''z'') @ '' coordinate out of range''))"
    using safe_move_validates [OF assms(1)] validate_out_of_range [OF assms(3)]
    unfolding assms(2) by blast
  then show ?thesis by simp
qed

text \<open>The definitions that evaluate a lookup in the default set of tools.\<close>

lemmas mock_tools =
  mock_mill_def new_tool_manager_def load_tools_def tools_of_items_def default_tool_json_def
  get_offset_def from_dict_def

text \<open>
  The request of \<^verbatim>\<open>test_move_to_positions_invalid_coordinates\<close>: (100, 100, 100) from
  (-100, -100, -50).
\<close>

theorem safe_move_out_of_range_witness:
  "get_offset (tool_manager mock_mill) (Name ''center'') = Inr (Coordinates 0 0 0)
   \<and> \<not> get_x (calculate_target_coordinates mock_mill (Coordinates 100 100 100)
             (Coordinates (- 100) (- 100) (- 50)) (Coordinates 0 0 0)) \<le> 0
   \<and> safe_move mock_mill (Inr (Coordinates (- 100) (- 100) (- 50))) (Coordinates 100 100 100)
        (Name ''center'') None 2000 = Inl (ValueError ''x coordinate out of range'')
   \<and> commands_sent (safe_move mock_mill (Inr (Coordinates (- 100) (- 100) (- 50)))
        (Coordinates 100 100 100) (Name ''center'') None 2000) = []"
proof -
  have a: "get_offset (tool_manager mock_mill) (Name ''center'') = Inr (Coordinates 0 0 0)"
    by (simp add: mock_tools)
  have b: "\<not> get_x (calculate_target_coordinates mock_mill (Coordinates 100 100 100)
             (Coordinates (- 100) (- 100) (- 50)) (Coordinates 0 0 0)) \<le> 0"
    by (simp add: calculate_target_coordinates_def)
  from b have c: "\<not> (get_x (working_volume mock_mill)
          \<le> get_x (calculate_target_coordinates mock_mill (Coordinates 100 100 100)
             (Coordinates (- 100) (- 100) (- 50)) (Coordinates 0 0 0))
        \<and> get_x (calculate_target_coordinates mock_mill (Coordinates 100 100 100)
             (Coordinates (- 100) (- 100) (- 50)) (Coordinates 0 0 0)) \<le> 0)
      \<or> \<not> (get_y (working_volume mock_mill)
          \<le> get_y (calculate_target_coordinates mock_mill (Coordinates 100 100 100)
             (Coordinates (- 100) (- 100) (- 50)) (Coordinates 0 0 0))
        \<and> get_y (calculate_target_coordinates mock_mill (Coordinates 100 100 100)
             (Coordinates (- 100) (- 100) (- 50)) (Coordinates 0 0 0)) \<le> 0)
      \<or> \<not> (get_z (working_volume mock_mill)
          \<le> get_z (calculate_target_coordinates mock_mill (Coordinates 100 100 100)
             (Coordinates (- 100) (- 100) (- 50)) (Coordinates 0 0 0))
        \<and> get_z (calculate_target_coordinates mock_mill (Coordinates 100 100 100)
             (Coordinates (- 100) (- 100) (- 50)) (Coordinates 0 0 0)) \<le> max_z_height mock_mill)"
    by blast
  from safe_move_out_of_range [OF a refl c, of None 2000] a b show ?thesis
    by simp
qed

subsection \<open>A target already reached\<close>

lemma move_to_position_at_target:
  assumes "get_offset (tool_manager m) tool = Inr offsets"
    and "is_already_at_target (calculate_target_coordinates m goto current offsets) current"
  shows "move_to_position m (Inr current) goto tool = Inr (AlreadyAtTarget current)"
  using assms by (simp add: move_to_position_def)

text \<open>
  Claim C4. When the resolved target of a \<^verbatim>\<open>move_to_position\<close> request equals the
  current position on all three axes, the method sends no command and returns the current
  position.
\<close>

theorem move_to_position_idempotent:
  assumes "get_offset (tool_manager m) tool = Inr offsets"
    and "target = calculate_target_coordinates m goto current offsets"
    and "get_x target = get_x current \<and> get_y target = get_y current \<and> get_z target = get_z current"
  shows "move_to_position m (Inr current) goto tool = Inr (AlreadyAtTarget current)
       \<and> commands_sent (move_to_position m (Inr current) goto tool) = []"
proof -
  have "is_already_at_target (calculate_target_coordinates m goto current offsets) current"
    using assms(2,3) by (simp add: is_already_at_target_def)
  with assms(1) have "move_to_position m (Inr current) goto tool = Inr (AlreadyAtTarget current)"
    by (rule move_to_position_at_target)
  then show ?thesis by simp
qed

theorem move_to_position_idempotent_witness:
  "get_offset (tool_manager mock_mill) (Name ''center'') = Inr (Coordinates 0 0 0)
   \<and> get_x (calculate_target_coordinates mock_mill (Coordinates (- 100) (- 100) (- 50))
        (Coordinates (- 100) (- 100) (- 50)) (Coordinates 0 0 0)) = get_x (Coordinates (- 100) (- 100) (- 50))
   \<and> get_y (calculate_target_coordinates mock_mill (Coordinates (- 100) (- 100) (- 50))
        (Coordinates (- 100) (- 100) (- 50)) (Coordinates 0 0 0)) = get_y (Coordinates (- 100) (- 100) (- 50))
   \<and> get_z (calculate_target_coordinates mock_mill (Coordinates (- 100) (- 100) (- 50))
        (Coordinates (- 100) (- 100) (- 50)) (Coordinates 0 0 0)) = get_z (Coordinates (- 100) (- 100) (- 50))
   \<and> move_to_position mock_mill (Inr (Coordinates (- 100) (- 100) (- 50)))
        (Coordinates (- 100) (- 100) (- 50)) (Name ''center'')
       = Inr (AlreadyAtTarget (Coordinates (- 100) (- 100) (- 50)))
   \<and> commands_sent (move_to_position mock_mill (Inr (Coordinates (- 100) (- 100) (- 50)))
        (Coordinates (- 100) (- 100) (- 50)) (Name ''center'')) = []"
proof -
  have a: "get_offset (tool_manager mock_mill) (Name ''center'') = Inr (Coordinates 0 0 0)"
    by (simp add: mock_tools)
  have b: "get_x (calculate_target_coordinates mock_mill (Coordinates (- 100) (- 100) (- 50))
        (Coordinates (- 100) (- 100) (- 50)) (Coordinates 0 0 0)) = get_x (Coordinates (- 100) (- 100) (- 50))
   \<and> get_y (calculate_target_coordinates mock_mill (Coordinates (- 100) (- 100) (- 50))
        (Coordinates (- 100) (- 100) (- 50)) (Coordinates 0 0 0)) = get_y (Coordinates (- 100) (- 100) (- 50))
   \<and> get_z (calculate_target_coordinates mock_mill (Coordinates (- 100) (- 100) (- 50))
        (Coordinates (- 100) (- 100) (- 50)) (Coordinates 0 0 0)) = get_z (Coordinates (- 100) (- 100) (- 50))"
    by (simp add: calculate_target_coordinates_def mock_mill_def)
  from move_to_position_idempotent [OF a refl b] a b show ?thesis by simp
qed

text \<open>
  Claim C10. When the resolved target equals the current position and is out of bounds,
  \<^verbatim>\<open>safe_move\<close> raises the out-of-range \<^verbatim>\<open>ValueError\<close>, because it validates first, and
  \<^verbatim>\<open>move_to_position\<close> returns the current position, because it compares first.
\<close>

theorem entry_points_order_checks_differently:
  assumes "get_offset (tool_manager m) tool = Inr offsets"
    and "target = calculate_target_coordinates m goto current offsets"
    and "get_x target = get_x current \<and> get_y target = get_y current \<and> get_z target = get_z current"
    and "\<not> (get_x (working_volume m) \<le> get_x target \<and> get_x target \<le> 0)
       \<or> \<not> (get_y (working_volume m) \<le> get_y target \<and> get_y target \<le> 0)
       \<or> \<not> (get_z (working_volume m) \<le> get_z target \<and> get_z target \<le> max_z_height m)"
  shows "safe_move m (Inr current) goto tool z2 feed =
           Inl (ValueError
             ((if \<not> (get_x (working_volume m) \<le> get_x target \<and> get_x target \<le> 0) then ''x''
               else if \<not> (get_y (working_volume m) \<le> get_y target \<and> get_y target \<le> 0) then ''y''
               else ''z'') @ '' coordinate out of range''))
       \<and> move_to_position m (Inr current) goto tool = Inr (AlreadyAtTarget current)"
proof
  show "safe_move m (Inr current) goto tool z2 feed =
           Inl (ValueError
             ((if \<not> (get_x (working_volume m) \<le> get_x target \<and> get_x target \<le> 0) then ''x''
               else if \<not> (get_y (working_volume m) \<le> get_y target \<and> get_y target \<le> 0) then ''y''
               else ''z'') @ '' coordinate out of range''))"
    using safe_move_validates [OF assms(1)] validate_out_of_range [OF assms(4)]
    unfolding assms(2) by blast
next
  have "is_already_at_target (calculate_target_coordinates m goto current offsets) current"
    using assms(2,3) by (simp add: is_already_at_target_def)
  with assms(1) show "move_to_position m (Inr current) goto tool = Inr (AlreadyAtTarget current)"
    by (rule move_to_position_at_target)
qed

text \<open>
  At the position (1, 1, 1) that a homed machine with pull-off 1 reports, a request for
  that same position is refused by \<^verbatim>\<open>safe_move\<close> and accepted by \<^verbatim>\<open>move_to_position\<close>.
\<close>

theorem entry_points_order_checks_differently_witness:
  "get_offset (tool_manager pulled_off_mill) (Name ''center'') = Inr (Coordinates 0 0 0)
   \<and> get_x (calculate_target_coordinates pulled_off_mill (Coordinates 1 1 1) (Coordinates 1 1 1)
        (Coordinates 0 0 0)) = get_x (Coordinates 1 1 1)
   \<and> get_y (calculate_target_coordinates pulled_off_mill (Coordinates 1 1 1) (Coordinates 1 1 1)
        (Coordinates 0 0 0)) = get_y (Coordinates 1 1 1)
   \<and> get_z (calculate_target_coordinates pulled_off_mill (Coordinates 1 1 1) (Coordinates 1 1 1)
        (Coordinates 0 0 0)) = get_z (Coordinates 1 1 1)
   \<and> \<not> get_x (calculate_target_coordinates pulled_off_mill (Coordinates 1 1 1) (Coordinates 1 1 1)
        (Coordinates 0 0 0)) \<le> 0
   \<and> safe_move pulled_off_mill (Inr (Coordinates 1 1 1)) (Coordinates 1 1 1) (Name ''center'')
        None 2000 = Inl (ValueError ''x coordinate out of range'')
   \<and> move_to_position pulled_off_mill (Inr (Coordinates 1 1 1)) (Coordinates 1 1 1)
        (Name ''center'') = Inr (AlreadyAtTarget (Coordinates 1 1 1))"
proof -
  let ?t = "calculate_target_coordinates pulled_off_mill (Coordinates 1 1 1) (Coordinates 1 1 1)
        (Coordinates 0 0 0)"
  have a: "get_offset (tool_manager pulled_off_mill) (Name ''center'') = Inr (Coordinates 0 0 0)"
    by (simp add: pulled_off_mill_def mock_tools)
  have b: "get_x ?t = get_x (Coordinates 1 1 1) \<and> get_y ?t = get_y (Coordinates 1 1 1)
      \<and> get_z ?t = get_z (Coordinates 1 1 1)"
    by (simp add: calculate_target_coordinates_def pulled_off_mill_def mock_mill_def)
  have c: "\<not> get_x ?t \<le> 0"
    by (simp add: calculate_target_coordinates_def)
  then have d: "\<not> (get_x (working_volume pulled_off_mill) \<le> get_x ?t \<and> get_x ?t \<le> 0)
       \<or> \<not> (get_y (working_volume pulled_off_mill) \<le> get_y ?t \<and> get_y ?t \<le> 0)
       \<or> \<not> (get_z (working_volume pulled_off_mill) \<le> get_z ?t
             \<and> get_z ?t \<le> max_z_height pulled_off_mill)"
    by blast
  from entry_points_order_checks_differently [OF a refl b d, of None 2000] a b c
  show ?thesis by simp
qed

subsection \<open>The lift before a move\<close>

text \<open>
  With its own default for the floor, the decision function asks for the lift when the
  current Z is below the ceiling and below \<open>safe_z_height\<close> and X or Y changes.
\<close>

lemma should_move_to_safe_position_first_iff:
  "should_move_to_safe_position_first m current destination h \<longleftrightarrow>
     get_z current < max_z_height m
     \<and> get_z current < (case h of None \<Rightarrow> safe_z_height m | Some f \<Rightarrow> f)
     \<and> (get_x current \<noteq> get_x destination \<or> get_y current \<noteq> get_y destination)"
  by (auto simp: should_move_to_safe_position_first_def Let_def)

text \<open>
  Claim C1, as the code has it. \<^verbatim>\<open>safe_move\<close> passes \<open>max_z_height\<close> for the floor, so
  \<open>safe_z_height\<close> has no part in the decision: for a request that passes validation and is
  not already at its target, the block of commands starts with the lift to
  \<open>max_z_height\<close> if and only if the current Z is below \<open>max_z_height\<close> and X or Y changes.
\<close>

theorem safe_move_lift_decision:
  assumes "get_offset (tool_manager m) tool = Inr offsets"
    and "target = calculate_target_coordinates m goto current offsets"
    and "validate_target_coordinates m target = Inr ()"
    and "\<not> is_already_at_target target current"
    and "lift \<longleftrightarrow> get_z current < max_z_height m
           \<and> (get_x current \<noteq> get_x target \<or> get_y current \<noteq> get_y target)"
  shows "safe_move m (Inr current) goto tool z2 feed =
           Inr (Execute
             ((if lift then [G01_Z (max_z_height m)] else [])
              @ generate_movement_commands m current target lift
              @ (case z2 of None \<Rightarrow> []
                 | Some z \<Rightarrow> [G01_Z_F (z + get_z offsets) feed, F_rate 2000])))"
proof -
  from assms(1) obtain n where n: "tool_key tool = Inr n"
    "get_offset (tool_manager m) (Name n) = Inr offsets" by (rule get_offset_key)
  have "should_move_to_safe_position_first m current target (Some (max_z_height m)) = lift"
    using assms(5) by (auto simp: should_move_to_safe_position_first_iff)
  with n assms(3,4) show ?thesis
    unfolding assms(2) by (simp add: safe_move_def Let_def)
qed

text \<open>
  The example of the specification: from (-100, -100, -50) to (-200, -200, -75) with the
  tool \<open>center\<close>.
\<close>

theorem safe_move_lift_decision_witness:
  "get_offset (tool_manager mock_mill) (Name ''center'') = Inr (Coordinates 0 0 0)
   \<and> validate_target_coordinates mock_mill
        (calculate_target_coordinates mock_mill (Coordinates (- 200) (- 200) (- 75))
           (Coordinates (- 100) (- 100) (- 50)) (Coordinates 0 0 0)) = Inr ()
   \<and> \<not> is_already_at_target
        (calculate_target_coordinates mock_mill (Coordinates (- 200) (- 200) (- 75))
           (Coordinates (- 100) (- 100) (- 50)) (Coordinates 0 0 0))
        (Coordinates (- 100) (- 100) (- 50))
   \<and> safe_move mock_mill (Inr (Coordinates (- 100) (- 100) (- 50)))
        (Coordinates (- 200) (- 200) (- 75)) (Name ''center'') None 2000
       = Inr (Execute [G01_Z 0, G01_XY (- 200) (- 200), G01_Z (- 75)])"
proof -
  let ?t = "calculate_target_coordinates mock_mill (Coordinates (- 200) (- 200) (- 75))
           (Coordinates (- 100) (- 100) (- 50)) (Coordinates 0 0 0)"
  have t: "get_x ?t = - 200" "get_y ?t = - 200" "get_z ?t = - 75"
    by (simp_all add: calculate_target_coordinates_def mock_mill_def)
  have a: "get_offset (tool_manager mock_mill) (Name ''center'') = Inr (Coordinates 0 0 0)"
    by (simp add: mock_tools)
  have b: "validate_target_coordinates mock_mill ?t = Inr ()"
    unfolding validate_target_coordinates_def t by (simp add: mock_mill_def)
  have c: "\<not> is_already_at_target ?t (Coordinates (- 100) (- 100) (- 50))"
    unfolding is_already_at_target_def t by simp
  have d: "True \<longleftrightarrow> get_z (Coordinates (- 100) (- 100) (- 50)) < max_z_height mock_mill
           \<and> (get_x (Coordinates (- 100) (- 100) (- 50)) \<noteq> get_x ?t
               \<or> get_y (Coordinates (- 100) (- 100) (- 50)) \<noteq> get_y ?t)"
    unfolding t by (simp add: mock_mill_def)
  have e: "generate_movement_commands mock_mill (Coordinates (- 100) (- 100) (- 50)) ?t True
      = [G01_XY (- 200) (- 200), G01_Z (- 75)]"
    unfolding generate_movement_commands_def t by simp
  have f: "max_z_height mock_mill = 0" by (simp add: mock_mill_def)
  from safe_move_lift_decision [OF a refl b c d, of None 2000] a b c show ?thesis
    unfolding e f by simp
qed

text \<open>
  Claim C1, as stated, fails: at Z = -5, which is above the safe height of -10 and below
  the ceiling of 0, \<^verbatim>\<open>safe_move\<close> lifts to the ceiling before the horizontal move.
\<close>

theorem safe_move_lifts_above_safe_height:
  "safe_z_height mock_mill \<le> get_z (Coordinates (- 100) (- 100) (- 5))
   \<and> safe_move mock_mill (Inr (Coordinates (- 100) (- 100) (- 5)))
        (Coordinates (- 200) (- 200) (- 75)) (Name ''center'') None 2000
       = Inr (Execute [G01_Z 0, G01_XY (- 200) (- 200), G01_Z (- 75)])"
  by (simp add: safe_move_def mock_tools calculate_target_coordinates_def
      validate_target_coordinates_def is_already_at_target_def
      should_move_to_safe_position_first_def generate_movement_commands_def Let_def)

section \<open>Properties of the tool store\<close>

text \<open>
  Saving changes the file only, and an operation on another key leaves the entry of
  \<open>center\<close> alone.
\<close>

lemma has_center_save [simp]: "has_center (save_tools tm) = has_center tm"
  by (simp add: has_center_def save_tools_def)

lemma has_center_update_other:
  "n \<noteq> ''center'' \<Longrightarrow>
   has_center (tm\<lparr>tool_offsets := AList.update n t (tool_offsets tm)\<rparr>) = has_center tm"
  by (simp add: has_center_def update_conv')

lemma has_center_delete_other:
  "n \<noteq> ''center'' \<Longrightarrow>
   has_center (tm\<lparr>tool_offsets := AList.delete n (tool_offsets tm)\<rparr>) = has_center tm"
  by (simp add: has_center_def delete_conv')

lemma update_tool_keeps_center:
  assumes "tool_key tool \<noteq> Inr ''center''" and "update_tool tm tool c = Inr tm'"
  shows "has_center tm' = has_center tm"
  using assms
  by (auto simp: update_tool_def has_center_update_other split: sum.splits option.splits)

lemma add_tool_keeps_center:
  assumes "tool_key tool \<noteq> Inr ''center''" and "add_tool tm tool c = Inr tm'"
  shows "has_center tm' = has_center tm"
proof (cases "tool_key tool")
  case (Inl e)
  with assms(2) show ?thesis by (simp add: add_tool_def)
next
  case (Inr n)
  with assms(1) have n: "n \<noteq> ''center''" by simp
  show ?thesis
  proof (cases "n \<in> fst ` set (tool_offsets tm)")
    case True
    with Inr assms(2) obtain tm1 where u: "update_tool tm (Name n) c = Inr tm1"
      and "tm' = save_tools tm1"
      by (auto simp: add_tool_def split: sum.splits)
    moreover from n u have "has_center tm1 = has_center tm"
      by (intro update_tool_keeps_center [of "Name n"]) simp_all
    ultimately show ?thesis by simp
  next
    case False
    with Inr assms(2) n show ?thesis
      by (auto simp: add_tool_def has_center_update_other)
  qed
qed

lemma delete_tool_keeps_center:
  assumes "n \<noteq> ''center''" and "delete_tool tm n = Inr tm'"
  shows "has_center tm' = has_center tm"
  using assms by (auto simp: delete_tool_def has_center_delete_other split: if_splits)

lemma apply_tool_op_keeps_center:
  assumes "written_key op \<noteq> Some ''center''" and "removed_key op \<noteq> Some ''center''"
  shows "has_center (apply_tool_op tm op) = has_center tm"
proof (cases op)
  case (Add tool c)
  with assms(1) have "tool_key tool \<noteq> Inr ''center''" by (auto split: sum.splits)
  with Add show ?thesis
    by (auto split: sum.splits dest: add_tool_keeps_center)
next
  case (Get tool)
  then show ?thesis by simp
next
  case (Update tool c)
  with assms(1) have "tool_key tool \<noteq> Inr ''center''" by (auto split: sum.splits)
  with Update show ?thesis
    by (auto split: sum.splits dest: update_tool_keeps_center)
next
  case (Delete n)
  with assms(2) have "n \<noteq> ''center''" by simp
  with Delete show ?thesis
    by (auto split: sum.splits dest: delete_tool_keeps_center)
qed

lemma apply_tool_ops_keep_center:
  assumes "\<forall>op \<in> set ops. written_key op \<noteq> Some ''center'' \<and> removed_key op \<noteq> Some ''center''"
  shows "has_center (apply_tool_ops tm ops) = has_center tm"
  using assms unfolding apply_tool_ops_def
  by (induction ops arbitrary: tm) (simp_all add: apply_tool_op_keeps_center)

lemma coordinates_eq_zero: "coordinates_eq (Coordinates 0 0 0) (Coordinates 0 0 0)"
  by (simp add: coordinates_eq_def)

lemma default_store_has_center:
  assumes "file = Missing \<or> file = Undecodable \<or> file = Malformed"
  shows "has_center (new_tool_manager file)"
  using assms
  by (auto simp: new_tool_manager_def load_tools_def tools_of_items_def default_tool_json_def
      from_dict_def default_tool_def has_center_def coordinates_eq_zero save_tools_def)

text \<open>
  Claim C9, as the code has it. Starting from the store that \<^verbatim>\<open>ToolManager()\<close> builds
  when the tools file is absent or unreadable, after any sequence of add, get, update and
  delete operations none of which writes to or deletes the key \<open>center\<close>, the store has
  a tool named \<open>center\<close> with offset (0, 0, 0).
\<close>

theorem center_tool_kept:
  assumes "file = Missing \<or> file = Undecodable \<or> file = Malformed"
    and "\<forall>op \<in> set ops. written_key op \<noteq> Some ''center'' \<and> removed_key op \<noteq> Some ''center''"
  shows "has_center (apply_tool_ops (new_tool_manager file) ops)"
  using apply_tool_ops_keep_center [OF assms(2)] default_store_has_center [OF assms(1)] by simp

text \<open>
  The operations of \<^verbatim>\<open>test_move_to_positions_with_tool_offset\<close>, with a lookup and an
  update of another tool in between.
\<close>

theorem center_tool_kept_witness:
  "has_center (apply_tool_ops (new_tool_manager Missing)
     [Add (Name ''test_tool'') (Coordinates 10 10 10), Get (Member ''center''),
      Update (Name ''pipette'') (Coordinates 1 2 3), Delete ''test_tool''])"
proof -
  have a: "\<forall>op \<in> set [Add (Name ''test_tool'') (Coordinates 10 10 10), Get (Member ''center''),
        Update (Name ''pipette'') (Coordinates 1 2 3), Delete ''test_tool''].
      written_key op \<noteq> Some ''center'' \<and> removed_key op \<noteq> Some ''center''"
    by simp
  have b: "Missing = Missing \<or> Missing = Undecodable \<or> Missing = Malformed" by simp
  from center_tool_kept [OF b a] show ?thesis .
qed

text \<open>
  Claim C9, as stated, fails: \<^verbatim>\<open>delete_tool("center")\<close> overwrites nothing, and after it
  the store has no tool named \<open>center\<close>.
\<close>

theorem delete_removes_center:
  "written_key (Delete ''center'') = None
   \<and> \<not> has_center (apply_tool_ops (new_tool_manager Missing) [Delete ''center''])"
  by (simp add: apply_tool_ops_def new_tool_manager_def load_tools_def tools_of_items_def
      default_tool_json_def from_dict_def delete_tool_def save_tools_def has_center_def)

section \<open>Properties of the connection\<close>

text \<open>The definitions that evaluate text and a scripted device.\<close>

lemmas text_defs =
  py_int_def py_float_def strip_def rstrip_def is_space_def unsigned_int_def unsigned_float_def
  is_digit_def decimal_value_def digit_value_def lower_def lower_char_def

lemmas device_defs =
  mill_read_def ser_readline_def ser_readlines_def ser_write_def time_time_def script_def
  fresh_io_def

text \<open>\<^verbatim>\<open>connect_to_mill\<close> returns the mill with the working volume it had before.\<close>

lemma connect_to_mill_working_volume:
  assumes "connect_to_mill fuel m port_opens file_writable dev s = Some (Inr m', s')"
  shows "working_volume m' = working_volume m"
  using assms
  by (auto simp: connect_to_mill_def Let_def
      split: if_splits option.splits prod.splits sum.splits response.splits)

text \<open>
  The two exchanges of a connection to \<open>grbl_device\<close>: the settings are read, and the
  check for an alarm finds an empty first read and then an idle status.
\<close>

lemma settings_read:
  "execute_command 9 False grbl_device fresh_io ''$$'' =
     Some (Inr (Settings
         [''$10'' \<mapsto> ''1'', ''$20'' \<mapsto> ''1'', ''$27'' \<mapsto> ''1.000'', ''$130'' \<mapsto> ''200.000'',
          ''$131'' \<mapsto> ''200.000'', ''$132'' \<mapsto> ''100.000'']),
        \<lparr>reads_done = 0, readline_done = 7, readlines_done = 0, times_done = 0,
         writes_done = Suc 0, written = [[CHR ''$'', CHR ''$'', CHR 0x0A]]\<rparr>)"
  by (simp add: eval_nat_numeral grbl_device_def device_defs rstrip_def is_space_def
      parse_settings_def strip_def)

lemma alarm_check_passes:
  "check_for_alarm_state 9 False grbl_device
        \<lparr>reads_done = 0, readline_done = 7, readlines_done = 0, times_done = 0,
         writes_done = Suc 0, written = [[CHR ''$'', CHR ''$'', CHR 0x0A]]\<rparr>
      = Some (None,
        \<lparr>reads_done = 2, readline_done = 7, readlines_done = 0, times_done = 0,
         writes_done = Suc 0, written = [[CHR ''$'', CHR ''$'', CHR 0x0A]]\<rparr>)"
  by (simp add: check_for_alarm_state_def current_status_def grbl_device_def device_defs
      lower_def lower_char_def eval_nat_numeral)

text \<open>
  Claim C8 on a concrete connection. The mill was created from a configuration file with
  soft limits off, so its working volume is the fallback (-415, -300, -200). The controller
  it connects to has soft limits on and travels 200, 200, 100. After the successful
  \<^verbatim>\<open>connect_to_mill\<close> the settings are those of the controller, from which
  \<^verbatim>\<open>read_working_volume\<close> derives (-200, -200, -100), and \<open>working_volume\<close> still is the
  fallback.
\<close>

theorem connect_leaves_working_volume_stale:
  "(case new_mill file_config Missing of
      Inl e \<Rightarrow> False
    | Inr m \<Rightarrow>
        (case connect_to_mill 9 m True True grbl_device fresh_io of
           Some (Inr m', s') \<Rightarrow>
             working_volume m = Coordinates (- 415) (- 300) (- 200)
             \<and> config m' ''$20'' = Some ''1''
             \<and> read_working_volume m' = Inr (Coordinates (- 200) (- 200) (- 100))
             \<and> working_volume m' = Coordinates (- 415) (- 300) (- 200)
         | other \<Rightarrow> False))"
proof -
  have a: "new_mill file_config Missing =
      Inr \<lparr>config = file_config, homed = False, auto_home = True, active_connection = False,
         tool_manager = new_tool_manager Missing,
         working_volume = Coordinates (- 415) (- 300) (- 200),
         safe_z_height = - 10, max_z_height = 0, interactive_mode = False\<rparr>"
    by (simp add: new_mill_def Let_def read_working_volume_def config_int_def file_config_def
        text_defs)
  show ?thesis
    unfolding a
    by (simp add: connect_to_mill_def settings_read alarm_check_passes Let_def
        read_working_volume_def config_int_def config_float_def text_defs)
qed

section \<open>Properties of the position report\<close>

text \<open>
  Rounding a float to 3 decimals gives a whole number of thousandths, at most half a
  thousandth away; half way between two thousandths, \<open>float_side\<close> decides.
\<close>

lemma round_half_even_close: "\<bar>of_int (round_half_even v) - v\<bar> \<le> 1 / 2"
proof -
  have "of_int \<lfloor>v\<rfloor> \<le> v" "v < of_int \<lfloor>v\<rfloor> + 1" by linarith+
  then show ?thesis
    by (auto simp: round_half_even_def Let_def)
qed

lemma round_half_even_tie:
  assumes "v - of_int \<lfloor>v\<rfloor> = 1 / 2"
  shows "even (round_half_even v)"
  using assms by (simp add: round_half_even_def Let_def)

lemma py_round_close: "\<bar>py_round v n - v\<bar> \<le> 1 / (2 * 10 ^ n)"
proof -
  have "\<bar>py_round v n - v\<bar> = \<bar>of_int (round_half_even (v * 10 ^ n)) - v * 10 ^ n\<bar> / 10 ^ n"
    by (simp add: py_round_def field_simps)
  also have "\<dots> \<le> (1 / 2) / 10 ^ n"
    by (intro divide_right_mono round_half_even_close) simp
  finally show ?thesis by simp
qed

lemma round_float_thousandths:
  "\<exists>i::int. round_float float_side v 3 = of_int i / 1000
     \<and> \<bar>round_float float_side v 3 - v\<bar> \<le> 1 / 2000
     \<and> (v * 1000 - of_int \<lfloor>v * 1000\<rfloor> = 1 / 2 \<longrightarrow>
           (case float_side v of
              Below \<Rightarrow> round_float float_side v 3 < v
            | Exact \<Rightarrow> even i
            | Above \<Rightarrow> v < round_float float_side v 3))"
proof (cases "v * 1000 - of_int \<lfloor>v * 1000\<rfloor> = 1 / 2")
  case False
  then have r: "round_float float_side v 3 = py_round v 3"
    by (simp add: round_float_def Let_def)
  have a: "round_float float_side v 3 = of_int (round_half_even (v * 1000)) / 1000"
    unfolding r by (simp add: py_round_def)
  have b: "\<bar>round_float float_side v 3 - v\<bar> \<le> 1 / 2000"
    unfolding r using py_round_close [of v 3] by simp
  from a b False show ?thesis by blast
next
  case True
  then have v: "v = (of_int \<lfloor>v * 1000\<rfloor> + 1 / 2) / 1000" by simp
  show ?thesis
  proof (cases "float_side v")
    case Below
    with True have a: "round_float float_side v 3 = of_int \<lfloor>v * 1000\<rfloor> / 1000"
      by (simp add: round_float_def Let_def)
    have e: "round_float float_side v 3 = v - 1 / 2000"
      unfolding a by (subst (2) v) (simp add: field_simps)
    have b: "\<bar>round_float float_side v 3 - v\<bar> \<le> 1 / 2000"
      unfolding e by simp
    have c: "case float_side v of
               Below \<Rightarrow> round_float float_side v 3 < v
             | Exact \<Rightarrow> even \<lfloor>v * 1000\<rfloor>
             | Above \<Rightarrow> v < round_float float_side v 3"
      unfolding Below e by simp
    from a b c show ?thesis by blast
  next
    case Above
    with True have a: "round_float float_side v 3 = of_int (\<lfloor>v * 1000\<rfloor> + 1) / 1000"
      by (simp add: round_float_def Let_def)
    have e: "round_float float_side v 3 = v + 1 / 2000"
      unfolding a by (subst (2) v) (simp add: field_simps)
    have b: "\<bar>round_float float_side v 3 - v\<bar> \<le> 1 / 2000"
      unfolding e by simp
    have c: "case float_side v of
               Below \<Rightarrow> round_float float_side v 3 < v
             | Exact \<Rightarrow> even (\<lfloor>v * 1000\<rfloor> + 1)
             | Above \<Rightarrow> v < round_float float_side v 3"
      unfolding Above e by simp
    from a b c show ?thesis by blast
  next
    case Exact
    with True have r: "round_float float_side v 3 = py_round v 3"
      by (simp add: round_float_def Let_def)
    have a: "round_float float_side v 3 = of_int (round_half_even (v * 1000)) / 1000"
      unfolding r by (simp add: py_round_def)
    have b: "\<bar>round_float float_side v 3 - v\<bar> \<le> 1 / 2000"
      unfolding r using py_round_close [of v 3] by simp
    have "even (round_half_even (v * 1000))"
      using True by (rule round_half_even_tie)
    then have c: "case float_side v of
               Below \<Rightarrow> round_float float_side v 3 < v
             | Exact \<Rightarrow> even (round_half_even (v * 1000))
             | Above \<Rightarrow> v < round_float float_side v 3"
      unfolding Exact by simp
    from a b c show ?thesis by blast
  qed
qed

lemma round_float_thousandths_exact:
  assumes "\<exists>j::int. v = of_int j / 1000"
  shows "round_float float_side v 3 = v"
proof -
  from assms obtain j :: int where v: "v = of_int j / 1000" by blast
  have "py_round v 3 = v"
    unfolding v using py_round_of_int_div [of j 3] by simp
  moreover have "v * 1000 - of_int \<lfloor>v * 1000\<rfloor> \<noteq> 1 / 2"
    unfolding v by simp
  ultimately show ?thesis by (simp add: round_float_def Let_def)
qed

lemma thousandths_plus_1:
  fixes i :: int
  shows "py_round (of_int i / 1000 + 1) 6 = of_int i / 1000 + 1"
proof -
  have "of_int i / 1000 + (1::real) = of_int ((i + 1000) * 1000) / 10 ^ 6" by simp
  then show ?thesis by (simp only: py_round_of_int_div)
qed

lemma thousandth_between:
  fixes i k :: int and r :: real
  assumes "r = of_int i / 1000" and "of_int (k - 1) / 1000 < r" and "r < of_int (k + 1) / 1000"
  shows "r = of_int k / 1000"
proof -
  from assms have "(of_int (k - 1) :: real) < of_int i" "(of_int i :: real) < of_int (k + 1)"
    by (simp_all add: field_simps)
  then have "k - 1 < i" "i < k + 1" by linarith+
  then have "i = k" by simp
  with assms(1) show ?thesis by simp
qed


lemma extract_machine_position:
  assumes "config m ''$10'' = Some mode_text" and "py_int mode_text = Some mode"
    and "mode = 1 \<or> mode = 3"
    and "config m ''$27'' = Some pull_off_text"
    and "py_float pull_off_text = Some homing_pull_off"
    and "pattern_search ''MPos:'' status = Some (g1, g2, g3)"
    and "py_float g1 = Some f1" and "py_float g2 = Some f2" and "py_float g3 = Some f3"
    and "x = round_float float_side f1 3 + homing_pull_off"
    and "y = round_float float_side f2 3 + homing_pull_off"
    and "z = round_float float_side f3 3 + homing_pull_off"
  shows "extract_coordinates m float_side status tool tool_only =
           (case tool of
              None \<Rightarrow> Inr (Center (Coordinates x y z))
            | Some t \<Rightarrow>
                (case get_offset (tool_manager m) t of
                   Inl e \<Rightarrow> Inl (ValueError ''Invalid instrument'')
                 | Inr offsets \<Rightarrow>
                     if tool_only
                     then Inr (ToolHead (Coordinates (x - get_x offsets) (y - get_y offsets)
                                 (z - get_z offsets)))
                     else Inr (CenterAndToolHead (Coordinates x y z)
                                 (Coordinates (x - get_x offsets) (y - get_y offsets)
                                    (z - get_z offsets)))))"
  using assms
  by (auto simp: extract_coordinates_def config_int_def config_float_def group_float_def Let_def
           split: option.splits sum.splits)

text \<open>
  Claim C7, as the code has it. When the status mode \<^verbatim>\<open>$10\<close> is 1 or 3, the query is
  written, the opening loop ends with a status text, the text has a position tagged
  \<^verbatim>\<open>MPos\<close> and its three numbers read as floats \<open>f1\<close>, \<open>f2\<close>, \<open>f3\<close>, then
  \<^verbatim>\<open>current_coordinates\<close> works on three numbers \<open>r1\<close>, \<open>r2\<close>, \<open>r3\<close>: each is a whole
  number of thousandths, no further than half a thousandth from the number reported,
  and when the number reported lies half way between two thousandths it is the one on
  the side where the float lies (the even one when the float is exact). The position of
  the mill centre is these three numbers plus the homing pull-off \<^verbatim>\<open>$27\<close>, on each
  of the three axes; for a tool, the offsets of the tool are subtracted from it, and
  a tool that the manager does not resolve raises \<^verbatim>\<open>ValueError\<close>. With a pull-off of 1
  the coordinates read back as the rounded numbers plus 1, and a number reported with
  at most 3 decimals is not changed by the rounding.
\<close>

theorem current_coordinates_machine_position:
  assumes "ser_write dev s ''?'' = (None, s1)"
    and "mill_read dev s1 = (first, s2)"
    and "seek_report 3 dev s2 first = (Inr status, s3)"
    and "config m ''$10'' = Some mode_text" and "py_int mode_text = Some mode"
    and "mode = 1 \<or> mode = 3"
    and "config m ''$27'' = Some pull_off_text"
    and "py_float pull_off_text = Some homing_pull_off"
    and "pattern_search ''MPos:'' status = Some (g1, g2, g3)"
    and "py_float g1 = Some f1" and "py_float g2 = Some f2" and "py_float g3 = Some f3"
  shows "\<exists>(i1::int) (i2::int) (i3::int) r1 r2 r3.
           r1 = of_int i1 / 1000 \<and> \<bar>r1 - f1\<bar> \<le> 1 / 2000
         \<and> r2 = of_int i2 / 1000 \<and> \<bar>r2 - f2\<bar> \<le> 1 / 2000
         \<and> r3 = of_int i3 / 1000 \<and> \<bar>r3 - f3\<bar> \<le> 1 / 2000
         \<and> (f1 * 1000 - of_int \<lfloor>f1 * 1000\<rfloor> = 1 / 2 \<longrightarrow>
               (case float_side f1 of Below \<Rightarrow> r1 < f1 | Exact \<Rightarrow> even i1 | Above \<Rightarrow> f1 < r1))
         \<and> (f2 * 1000 - of_int \<lfloor>f2 * 1000\<rfloor> = 1 / 2 \<longrightarrow>
               (case float_side f2 of Below \<Rightarrow> r2 < f2 | Exact \<Rightarrow> even i2 | Above \<Rightarrow> f2 < r2))
         \<and> (f3 * 1000 - of_int \<lfloor>f3 * 1000\<rfloor> = 1 / 2 \<longrightarrow>
               (case float_side f3 of Below \<Rightarrow> r3 < f3 | Exact \<Rightarrow> even i3 | Above \<Rightarrow> f3 < r3))
         \<and> current_coordinates m float_side dev s tool tool_only =
             ((case tool of
                 None \<Rightarrow>
                   Inr (Center (Coordinates (r1 + homing_pull_off) (r2 + homing_pull_off)
                          (r3 + homing_pull_off)))
               | Some t \<Rightarrow>
                   (case get_offset (tool_manager m) t of
                      Inl e \<Rightarrow> Inl (ValueError ''Invalid instrument'')
                    | Inr offsets \<Rightarrow>
                        if tool_only
                        then Inr (ToolHead
                               (Coordinates (r1 + homing_pull_off - get_x offsets)
                                  (r2 + homing_pull_off - get_y offsets)
                                  (r3 + homing_pull_off - get_z offsets)))
                        else Inr (CenterAndToolHead
                               (Coordinates (r1 + homing_pull_off) (r2 + homing_pull_off)
                                  (r3 + homing_pull_off))
                               (Coordinates (r1 + homing_pull_off - get_x offsets)
                                  (r2 + homing_pull_off - get_y offsets)
                                  (r3 + homing_pull_off - get_z offsets))))), s3)
         \<and> (homing_pull_off = 1 \<longrightarrow>
               get_x (Coordinates (r1 + 1) (r2 + 1) (r3 + 1)) = r1 + 1
             \<and> get_y (Coordinates (r1 + 1) (r2 + 1) (r3 + 1)) = r2 + 1
             \<and> get_z (Coordinates (r1 + 1) (r2 + 1) (r3 + 1)) = r3 + 1)
         \<and> ((\<exists>j::int. f1 = of_int j / 1000) \<longrightarrow> r1 = f1)
         \<and> ((\<exists>j::int. f2 = of_int j / 1000) \<longrightarrow> r2 = f2)
         \<and> ((\<exists>j::int. f3 = of_int j / 1000) \<longrightarrow> r3 = f3)"
proof -
  let ?r1 = "round_float float_side f1 3"
  let ?r2 = "round_float float_side f2 3"
  let ?r3 = "round_float float_side f3 3"
  obtain i1 :: int where r1: "?r1 = of_int i1 / 1000" "\<bar>?r1 - f1\<bar> \<le> 1 / 2000"
    "f1 * 1000 - of_int \<lfloor>f1 * 1000\<rfloor> = 1 / 2 \<longrightarrow>
       (case float_side f1 of Below \<Rightarrow> ?r1 < f1 | Exact \<Rightarrow> even i1 | Above \<Rightarrow> f1 < ?r1)"
    using round_float_thousandths [of float_side f1] by blast
  obtain i2 :: int where r2: "?r2 = of_int i2 / 1000" "\<bar>?r2 - f2\<bar> \<le> 1 / 2000"
    "f2 * 1000 - of_int \<lfloor>f2 * 1000\<rfloor> = 1 / 2 \<longrightarrow>
       (case float_side f2 of Below \<Rightarrow> ?r2 < f2 | Exact \<Rightarrow> even i2 | Above \<Rightarrow> f2 < ?r2)"
    using round_float_thousandths [of float_side f2] by blast
  obtain i3 :: int where r3: "?r3 = of_int i3 / 1000" "\<bar>?r3 - f3\<bar> \<le> 1 / 2000"
    "f3 * 1000 - of_int \<lfloor>f3 * 1000\<rfloor> = 1 / 2 \<longrightarrow>
       (case float_side f3 of Below \<Rightarrow> ?r3 < f3 | Exact \<Rightarrow> even i3 | Above \<Rightarrow> f3 < ?r3)"
    using round_float_thousandths [of float_side f3] by blast
  have run: "current_coordinates m float_side dev s tool tool_only =
               (extract_coordinates m float_side status tool tool_only, s3)"
    using assms(1-3) by (simp add: current_coordinates_def)
  note result = extract_machine_position [OF assms(4-12) refl refl refl, of float_side tool tool_only]
  have one: "get_x (Coordinates (?r1 + 1) (?r2 + 1) (?r3 + 1)) = ?r1 + 1"
    "get_y (Coordinates (?r1 + 1) (?r2 + 1) (?r3 + 1)) = ?r2 + 1"
    "get_z (Coordinates (?r1 + 1) (?r2 + 1) (?r3 + 1)) = ?r3 + 1"
    unfolding r1(1) r2(1) r3(1) by (simp_all add: thousandths_plus_1)
  have same: "(\<exists>j::int. f1 = of_int j / 1000) \<longrightarrow> ?r1 = f1"
    "(\<exists>j::int. f2 = of_int j / 1000) \<longrightarrow> ?r2 = f2"
    "(\<exists>j::int. f3 = of_int j / 1000) \<longrightarrow> ?r3 = f3"
    using round_float_thousandths_exact by blast+
  show ?thesis
    apply (rule exI [of _ i1], rule exI [of _ i2], rule exI [of _ i3])
    apply (rule exI [of _ ?r1], rule exI [of _ ?r2], rule exI [of _ ?r3])
    using r1 r2 r3 one same unfolding run result by blast
qed


lemma seek_tie_report: "seek_report 3 dev s tie_report = (Inr tie_report, s)"
  by (simp add: tie_report_def eval_nat_numeral)

lemma search_tie_report:
  "pattern_search ''MPos:'' tie_report = Some (''0.0005'', ''-10.0005'', ''2.6745'')"
  by (simp add: tie_report_def match_here_def in_group_def is_digit_def Let_def)

lemma tie_report_numbers:
  "py_float ''0.0005'' = Some 0.0005" "py_float ''-10.0005'' = Some (- 10.0005)"
  "py_float ''2.6745'' = Some 2.6745"
  by (simp_all add: text_defs)

lemma seek_fine_report: "seek_report 3 dev s fine_report = (Inr fine_report, s)"
  by (simp add: fine_report_def eval_nat_numeral)

lemma search_fine_report:
  "pattern_search ''MPos:'' fine_report = Some (''-10.0004'', ''-20.0006'', ''-5.0004'')"
  by (simp add: fine_report_def match_here_def in_group_def is_digit_def)

lemma fine_report_numbers:
  "py_float ''-10.0004'' = Some (- 10.0004)" "py_float ''-20.0006'' = Some (- 20.0006)"
  "py_float ''-5.0004'' = Some (- 5.0004)"
  by (simp_all add: text_defs)

lemma machine_mode_settings:
  "config machine_mode_mill ''$10'' = Some ''1''" "py_int ''1'' = Some 1"
  "config machine_mode_mill ''$27'' = Some ''1.000''" "py_float ''1.000'' = Some 1"
  by (simp_all add: machine_mode_mill_def file_config_def text_defs)

text \<open>
  The report \<^verbatim>\<open><Idle|MPos:0.0005,-10.0005,2.6745|FS:0,0>\<close> with pull-off 1.000: all
  three numbers lie half way between two thousandths, and in double precision the
  position reads as (1.001, -9.001, 3.675).
\<close>

theorem current_coordinates_machine_position_witness:
  "current_coordinates machine_mode_mill double_side tie_reporting_device fresh_io None True
     = (Inr (Center (Coordinates 1.001 (- 9.001) 3.675)),
        fresh_io\<lparr>reads_done := 1, writes_done := 1, written := [''?'']\<rparr>)"
proof -
  let ?s1 = "fresh_io\<lparr>writes_done := 1, written := [''?'']\<rparr>"
  let ?s2 = "fresh_io\<lparr>reads_done := 1, writes_done := 1, written := [''?'']\<rparr>"
  have a: "ser_write tie_reporting_device fresh_io ''?'' = (None, ?s1)"
    by (simp add: tie_reporting_device_def device_defs)
  have b: "mill_read tie_reporting_device ?s1 = (tie_report, ?s2)"
    by (simp add: tie_reporting_device_def device_defs)
  have d: "(1::int) = 1 \<or> (1::int) = 3" by simp
  have "\<exists>(i1::int) (i2::int) (i3::int) r1 r2 r3.
           r1 = of_int i1 / 1000 \<and> \<bar>r1 - 0.0005\<bar> \<le> 1 / 2000
         \<and> r2 = of_int i2 / 1000 \<and> \<bar>r2 - (- 10.0005)\<bar> \<le> 1 / 2000
         \<and> r3 = of_int i3 / 1000 \<and> \<bar>r3 - 2.6745\<bar> \<le> 1 / 2000
         \<and> (0.0005 * 1000 - of_int \<lfloor>0.0005 * 1000 :: real\<rfloor> = (1 / 2 :: real) \<longrightarrow>
               (case double_side 0.0005 of
                  Below \<Rightarrow> r1 < 0.0005 | Exact \<Rightarrow> even i1 | Above \<Rightarrow> 0.0005 < r1))
         \<and> (- 10.0005 * 1000 - of_int \<lfloor>- 10.0005 * 1000 :: real\<rfloor> = (1 / 2 :: real) \<longrightarrow>
               (case double_side (- 10.0005) of
                  Below \<Rightarrow> r2 < - 10.0005 | Exact \<Rightarrow> even i2 | Above \<Rightarrow> - 10.0005 < r2))
         \<and> (2.6745 * 1000 - of_int \<lfloor>2.6745 * 1000 :: real\<rfloor> = (1 / 2 :: real) \<longrightarrow>
               (case double_side 2.6745 of
                  Below \<Rightarrow> r3 < 2.6745 | Exact \<Rightarrow> even i3 | Above \<Rightarrow> 2.6745 < r3))
         \<and> current_coordinates machine_mode_mill double_side tie_reporting_device fresh_io
               None True =
             (Inr (Center (Coordinates (r1 + 1) (r2 + 1) (r3 + 1))), ?s2)"
    using current_coordinates_machine_position
      [OF a b seek_tie_report machine_mode_settings(1,2) d machine_mode_settings(3,4)
          search_tie_report tie_report_numbers, of double_side None True]
    unfolding option.case by blast
  then obtain i1 i2 i3 :: int and r1 r2 r3 :: real
    where r1: "r1 = of_int i1 / 1000" "\<bar>r1 - 0.0005\<bar> \<le> 1 / 2000"
      and r2: "r2 = of_int i2 / 1000" "\<bar>r2 - (- 10.0005)\<bar> \<le> 1 / 2000"
      and r3: "r3 = of_int i3 / 1000" "\<bar>r3 - 2.6745\<bar> \<le> 1 / 2000"
      and t1: "0.0005 * 1000 - of_int \<lfloor>0.0005 * 1000 :: real\<rfloor> = (1 / 2 :: real) \<longrightarrow>
               (case double_side 0.0005 of
                  Below \<Rightarrow> r1 < 0.0005 | Exact \<Rightarrow> even i1 | Above \<Rightarrow> 0.0005 < r1)"
      and t2: "- 10.0005 * 1000 - of_int \<lfloor>- 10.0005 * 1000 :: real\<rfloor> = (1 / 2 :: real) \<longrightarrow>
               (case double_side (- 10.0005) of
                  Below \<Rightarrow> r2 < - 10.0005 | Exact \<Rightarrow> even i2 | Above \<Rightarrow> - 10.0005 < r2)"
      and t3: "2.6745 * 1000 - of_int \<lfloor>2.6745 * 1000 :: real\<rfloor> = (1 / 2 :: real) \<longrightarrow>
               (case double_side 2.6745 of
                  Below \<Rightarrow> r3 < 2.6745 | Exact \<Rightarrow> even i3 | Above \<Rightarrow> 2.6745 < r3)"
      and run: "current_coordinates machine_mode_mill double_side tie_reporting_device fresh_io
                  None True =
                (Inr (Center (Coordinates (r1 + 1) (r2 + 1) (r3 + 1))), ?s2)"
    by blast
  from t1 have u1: "0.0005 < r1" by (simp add: double_side_def)
  from t2 have u2: "r2 < - 10.0005" by (simp add: double_side_def)
  from t3 have u3: "2.6745 < r3" by (simp add: double_side_def)
  have "r1 = of_int 1 / 1000"
    using r1(1) by (rule thousandth_between) (use r1(2) u1 in simp_all)
  moreover have "r2 = of_int (- 10001) / 1000"
    using r2(1) by (rule thousandth_between) (use r2(2) u2 in simp_all)
  moreover have "r3 = of_int 2675 / 1000"
    using r3(1) by (rule thousandth_between) (use r3(2) u3 in simp_all)
  ultimately have "r1 + 1 = 1.001" "r2 + 1 = - 9.001" "r3 + 1 = 3.675"
    by simp_all
  with run show ?thesis by simp
qed

text \<open>
  Claim C7, as stated, fails: the position reported is not the raw machine reading plus
  the pull-off. The report \<^verbatim>\<open><Idle|MPos:-10.0004,-20.0006,-5.0004|FS:0,0>\<close> with
  pull-off 1.000 reads as (-9, -19.001, -4), and on no axis is that the reading plus 1,
  which would be (-9.0004, -19.0006, -4.0004).
\<close>

theorem reported_position_is_not_raw_plus_pull_off:
  "config_float machine_mode_mill ''$27'' = Inr 1
   \<and> pattern_search ''MPos:'' fine_report = Some (''-10.0004'', ''-20.0006'', ''-5.0004'')
   \<and> group_float ''-10.0004'' = Inr (- 10.0004)
   \<and> group_float ''-20.0006'' = Inr (- 20.0006)
   \<and> group_float ''-5.0004'' = Inr (- 5.0004)
   \<and> fst (current_coordinates machine_mode_mill double_side fine_reporting_device fresh_io
            None True)
       = Inr (Center (Coordinates (- 9) (- 19.001) (- 4)))
   \<and> get_x (Coordinates (- 9) (- 19.001) (- 4)) \<noteq> - 10.0004 + 1
   \<and> get_y (Coordinates (- 9) (- 19.001) (- 4)) \<noteq> - 20.0006 + 1
   \<and> get_z (Coordinates (- 9) (- 19.001) (- 4)) \<noteq> - 5.0004 + 1"
proof -
  let ?s1 = "fresh_io\<lparr>writes_done := 1, written := [''?'']\<rparr>"
  let ?s2 = "fresh_io\<lparr>reads_done := 1, writes_done := 1, written := [''?'']\<rparr>"
  have a: "config_int machine_mode_mill ''$10'' = Inr 1"
    by (simp add: config_int_def machine_mode_settings)
  have b: "config_float machine_mode_mill ''$27'' = Inr 1"
    by (simp add: config_float_def machine_mode_settings)
  have g: "group_float ''-10.0004'' = Inr (- 10.0004)"
    "group_float ''-20.0006'' = Inr (- 20.0006)" "group_float ''-5.0004'' = Inr (- 5.0004)"
    by (simp_all add: group_float_def fine_report_numbers)
  have e: "extract_coordinates machine_mode_mill double_side fine_report None True
             = Inr (Center (Coordinates (- 9) (- 19.001) (- 4)))"
    by (simp add: extract_coordinates_def a b g search_fine_report Let_def round_float_def
          py_round_def round_half_even_def)
  have w: "ser_write fine_reporting_device fresh_io ''?'' = (None, ?s1)"
    by (simp add: fine_reporting_device_def device_defs)
  have m: "mill_read fine_reporting_device ?s1 = (fine_report, ?s2)"
    by (simp add: fine_reporting_device_def device_defs)
  have c: "fst (current_coordinates machine_mode_mill double_side fine_reporting_device
                  fresh_io None True)
             = Inr (Center (Coordinates (- 9) (- 19.001) (- 4)))"
    by (simp add: current_coordinates_def w m [simplified] seek_fine_report e [simplified])
  have "(- 19.001 :: real) = of_int (- 19001000) / 10 ^ 6" by simp
  then have "py_round (- 19.001) 6 = - 19.001"
    by (simp only: py_round_of_int_div)
  then have f: "get_x (Coordinates (- 9) (- 19.001) (- 4)) = - 9"
    "get_y (Coordinates (- 9) (- 19.001) (- 4)) = - 19.001"
    "get_z (Coordinates (- 9) (- 19.001) (- 4)) = - 4"
    by simp_all
  show ?thesis
    unfolding f using b g c search_fine_report by simp
qed

section \<open>Properties of waiting and executing\<close>


lemmas run_defs = current_status_def moving_device_def device_defs

text \<open>
  A move that takes 12 units of time against a timeout of 5 completes, because each
  report of \<^verbatim>\<open>Run\<close> starts the measured time again.
\<close>

lemma long_move_completes:
  "wait_for_completion 4 False moving_device fresh_io (Str ''ok'') 5
     = Some (Inr (Str ''<Idle|MPos:-9.000,0.000,0.000|FS:0,0>''),
         \<lparr>reads_done = 3, readline_done = 0, readlines_done = 0, times_done = 6, writes_done = 0,
          written = []\<rparr>)"
  by (simp add: wait_for_completion_def eval_nat_numeral run_defs)



lemma starts_with_append: "starts_with s (p @ q) \<Longrightarrow> starts_with s p"
  by (induction s p rule: starts_with.induct) simp_all

lemma contains_append: "contains s (p @ q) \<Longrightarrow> contains s p"
  by (induction s) (auto dest: starts_with_append)

lemma contains_error_22: "contains s ''error:22'' \<Longrightarrow> contains s ''error''"
  using contains_append [of s "''error''" "'':22''"] by simp

text \<open>
  Claim C5, as the code has it. When the text that \<^verbatim>\<open>execute_command\<close> examines (the
  first answer to a command that starts with \<^verbatim>\<open>$\<close>, the status that ended the wait for
  any other command) contains \<^verbatim>\<open>error:22\<close>, the method executes \<^verbatim>\<open>F2000\<close> and then
  the original command again, and what that execution returns or raises is the outcome.
  The second execution is the same method, so it recovers from \<^verbatim>\<open>error:22\<close> in the
  same way: nothing counts the retries.
\<close>

theorem execute_command_error_22:
  assumes "command \<noteq> ''$$''"
    and "ser_write dev s (command @ [CHR 0x0A]) = (None, s1)"
    and "mill_read dev s1 = (raw, s2)"
    and "(if starts_with command ''$'' then Some (Inr (Str (lower raw)), s2)
          else wait_for_completion fuel interactive dev s2 (Str (lower raw)) 5)
         = Some (Inr (Str mill_response), s3)"
    and "contains mill_response ''error:22''"
  shows "execute_command (Suc fuel) interactive dev s command =
           (case execute_command fuel interactive dev s3 ''F2000'' of
              None \<Rightarrow> None
            | Some (Inl e, s4) \<Rightarrow> Some (Inl (command_error command e), s4)
            | Some (Inr r, s4) \<Rightarrow>
                (case execute_command fuel interactive dev s4 command of
                   None \<Rightarrow> None
                 | Some (Inl e, s5) \<Rightarrow> Some (Inl (command_error command e), s5)
                 | Some (Inr again, s5) \<Rightarrow> Some (Inr again, s5)))"
proof -
  from assms(5) have "contains mill_response ''error''" by (rule contains_error_22)
  with assms show ?thesis by simp
qed

lemmas unset_feed_defs =
  current_status_def unset_feed_device_def wait_for_completion_def lower_def lower_char_def
  device_defs

text \<open>
  One occurrence: the device answers \<^verbatim>\<open>error:22\<close> to \<^verbatim>\<open>$X\<close>, then \<^verbatim>\<open>ok\<close>; the command is
  sent twice, with \<^verbatim>\<open>F2000\<close> in between, and its second answer is returned.
\<close>

theorem execute_command_error_22_witness:
  "contains (lower ''error:22'') ''error:22''
   \<and> execute_command (Suc 3) False unset_feed_device (fresh_io\<lparr>reads_done := 3\<rparr>) ''$X''
       = Some (Inr (Text ''ok''),
           \<lparr>reads_done = 7, readline_done = 0, readlines_done = 0, times_done = 2,
            writes_done = 3,
            written = [''$X'' @ [CHR 0x0A], ''F2000'' @ [CHR 0x0A], ''$X'' @ [CHR 0x0A]]\<rparr>)"
proof -
  let ?s1 = "fresh_io\<lparr>reads_done := 3, writes_done := 1, written := [''$X'' @ [CHR 0x0A]]\<rparr>"
  let ?s2 = "fresh_io\<lparr>reads_done := 4, writes_done := 1, written := [''$X'' @ [CHR 0x0A]]\<rparr>"
  let ?s4 = "\<lparr>reads_done = 6, readline_done = 0, readlines_done = 0, times_done = 2,
            writes_done = 2, written = [''$X'' @ [CHR 0x0A], ''F2000'' @ [CHR 0x0A]]\<rparr>"
  have a: "''$X'' \<noteq> ''$$''" by simp
  have b: "ser_write unset_feed_device (fresh_io\<lparr>reads_done := 3\<rparr>) (''$X'' @ [CHR 0x0A])
      = (None, ?s1)"
    by (simp add: unset_feed_defs)
  have c: "mill_read unset_feed_device ?s1 = (''error:22'', ?s2)"
    by (simp add: unset_feed_defs)
  have d: "(if starts_with ''$X'' ''$'' then Some (Inr (Str (lower ''error:22'')), ?s2)
        else wait_for_completion 3 False unset_feed_device ?s2 (Str (lower ''error:22'')) 5)
      = Some (Inr (Str (lower ''error:22'')), ?s2)"
    by simp
  have e: "contains (lower ''error:22'') ''error:22''"
    by (simp add: lower_def lower_char_def)
  have f: "execute_command 3 False unset_feed_device ?s2 ''F2000''
      = Some (Inr (Text ''<Idle|MPos:0.000,0.000,0.000|FS:0,0>''), ?s4)"
    by (simp add: eval_nat_numeral unset_feed_defs)
  have g: "execute_command 3 False unset_feed_device ?s4 ''$X''
      = Some (Inr (Text ''ok''),
           \<lparr>reads_done = 7, readline_done = 0, readlines_done = 0, times_done = 2,
            writes_done = 3,
            written = [''$X'' @ [CHR 0x0A], ''F2000'' @ [CHR 0x0A], ''$X'' @ [CHR 0x0A]]\<rparr>)"
    by (simp add: eval_nat_numeral unset_feed_defs)
  from execute_command_error_22 [OF a b c d e] e show ?thesis
    unfolding f by (simp add: g [simplified])
qed

text \<open>
  Claim C5, as stated, fails: when the device answers \<^verbatim>\<open>error:22\<close> to the first and to
  the second execution of \<^verbatim>\<open>$X\<close>, the command is executed a third time and its answer
  is returned.
\<close>

theorem execute_command_retries_twice:
  "execute_command 5 False unset_feed_device fresh_io ''$X''
     = Some (Inr (Text ''ok''),
         \<lparr>reads_done = 7, readline_done = 0, readlines_done = 0, times_done = 4, writes_done = 5,
          written = [''$X'' @ [CHR 0x0A], ''F2000'' @ [CHR 0x0A], ''$X'' @ [CHR 0x0A],
                     ''F2000'' @ [CHR 0x0A], ''$X'' @ [CHR 0x0A]]\<rparr>)"
  by (simp add: eval_nat_numeral unset_feed_defs)

text \<open>
  The retries have no bound. First the single steps on \<open>stubborn_device\<close>: a status
  poll that is answered at once, the answers of the device, the execution of
  \<^verbatim>\<open>F2000\<close>, and the last execution of the command.
\<close>

lemma ask_again_answered:
  assumes "status \<noteq> []" and "status \<noteq> ''ok''"
  shows "ask_again n dev s status = (Inr status, s)"
  using assms by (cases n) simp_all

lemma current_status_answered:
  assumes "read_results dev (reads_done s) \<noteq> []" and "read_results dev (reads_done s) \<noteq> ''ok''"
  shows "current_status interactive dev s
       = (Inr (Str (read_results dev (reads_done s))), s\<lparr>reads_done := Suc (reads_done s)\<rparr>)"
  using assms by (simp add: current_status_def mill_read_def ask_again_answered)

lemma stubborn_reads:
  assumes "j < k"
  shows "read_results (stubborn_device k) (3 * j) = ''error:22''"
    and "read_results (stubborn_device k) (Suc (3 * j)) = ''ok''"
    and "read_results (stubborn_device k) (Suc (Suc (3 * j))) = ''<Idle|MPos:0.000,0.000,0.000|FS:0,0>''"
    and "read_results (stubborn_device k) (3 * k) = ''ok''"
proof -
  have a: "3 * j < 3 * k" "Suc (3 * j) < 3 * k" "Suc (Suc (3 * j)) < 3 * k"
    using assms by simp_all
  have b: "Suc (3 * j) mod 3 = 1" "Suc (Suc (3 * j)) mod 3 = 2"
    by presburger+
  show "read_results (stubborn_device k) (3 * j) = ''error:22''"
    using a by (simp add: stubborn_device_def)
  show "read_results (stubborn_device k) (Suc (3 * j)) = ''ok''"
    using a b by (simp add: stubborn_device_def)
  show "read_results (stubborn_device k) (Suc (Suc (3 * j))) = ''<Idle|MPos:0.000,0.000,0.000|FS:0,0>''"
    using a b by (simp add: stubborn_device_def)
  show "read_results (stubborn_device k) (3 * k) = ''ok''"
    by (simp add: stubborn_device_def)
qed

lemma stubborn_others:
  "write_results (stubborn_device k) n = None"
  "time_results (stubborn_device k) n = 0"
  by (simp_all add: stubborn_device_def script_def)

lemma stubborn_feed_rate:
  assumes "reads_done s = Suc (3 * j)" and "j < k"
  shows "execute_command (Suc (Suc (Suc fuel))) False (stubborn_device k) s ''F2000''
       = Some (Inr (Text ''<Idle|MPos:0.000,0.000,0.000|FS:0,0>''),
           s\<lparr>writes_done := Suc (writes_done s),
             written := written s @ [''F2000'' @ [CHR 0x0A]],
             reads_done := Suc (Suc (Suc (3 * j))),
             times_done := Suc (Suc (times_done s))\<rparr>)"
  using assms
  by (simp add: ser_write_def mill_read_def time_time_def wait_for_completion_def
      current_status_answered stubborn_reads stubborn_others lower_def lower_char_def)

lemma stubborn_final: "read_results (stubborn_device k) (3 * k) = ''ok''"
  by (simp add: stubborn_device_def)

lemma stubborn_last:
  assumes "reads_done s = 3 * k"
  shows "execute_command (Suc fuel) False (stubborn_device k) s ''$X''
      = Some (Inr (Text ''ok''),
          s\<lparr>writes_done := Suc (writes_done s), written := written s @ [''$X'' @ [CHR 0x0A]],
            reads_done := Suc (3 * k)\<rparr>)"
  using assms
  by (simp add: ser_write_def mill_read_def stubborn_others stubborn_final lower_def
      lower_char_def)

lemma stubborn_rounds:
  assumes "reads_done s = 3 * j" and "j + d = k"
  shows "\<exists>s'. execute_command (d + 4) False (stubborn_device k) s ''$X'' = Some (Inr (Text ''ok''), s')
           \<and> count_list (written s') (''$X'' @ [CHR 0x0A])
               = count_list (written s) (''$X'' @ [CHR 0x0A]) + d + 1"
  using assms
proof (induction d arbitrary: s j)
  case 0
  then have "j = k" by simp
  with "0.prems"(1) have "reads_done s = 3 * k" by simp
  from stubborn_last [OF this, of 3]
  have "execute_command 4 False (stubborn_device k) s ''$X''
      = Some (Inr (Text ''ok''),
          s\<lparr>writes_done := Suc (writes_done s), written := written s @ [''$X'' @ [CHR 0x0A]],
            reads_done := Suc (3 * k)\<rparr>)"
    by simp
  then show ?case by simp
next
  case (Suc d)
  then have jk: "j < k" by simp
  let ?s2 = "s\<lparr>writes_done := Suc (writes_done s), written := written s @ [''$X'' @ [CHR 0x0A]],
            reads_done := Suc (3 * j)\<rparr>"
  let ?s4 = "?s2\<lparr>writes_done := Suc (writes_done ?s2),
             written := written ?s2 @ [''F2000'' @ [CHR 0x0A]],
             reads_done := Suc (Suc (Suc (3 * j))),
             times_done := Suc (Suc (times_done ?s2))\<rparr>"
  have fuel: "d + 4 = Suc (Suc (Suc (Suc d)))" by simp
  have feed: "execute_command (d + 4) False (stubborn_device k) ?s2 ''F2000''
      = Some (Inr (Text ''<Idle|MPos:0.000,0.000,0.000|FS:0,0>''), ?s4)"
    unfolding fuel by (rule stubborn_feed_rate) (simp_all add: jk)
  have "reads_done ?s4 = 3 * Suc j" by simp
  moreover from Suc.prems(2) have "Suc j + d = k" by simp
  ultimately obtain s' where
    again: "execute_command (d + 4) False (stubborn_device k) ?s4 ''$X'' = Some (Inr (Text ''ok''), s')"
    and count: "count_list (written s') (''$X'' @ [CHR 0x0A])
               = count_list (written ?s4) (''$X'' @ [CHR 0x0A]) + d + 1"
    using Suc.IH by blast
  define f where "f = d + 4"
  have step: "execute_command (Suc f) False (stubborn_device k) s ''$X''
      = Some (Inr (Text ''ok''), s')"
    using Suc.prems(1) jk feed again unfolding f_def [symmetric]
    by (simp add: ser_write_def mill_read_def stubborn_others stubborn_reads lower_def
        lower_char_def)
  have fuel': "Suc d + 4 = Suc f" by (simp add: f_def)
  have e: "execute_command (Suc d + 4) False (stubborn_device k) s ''$X''
      = Some (Inr (Text ''ok''), s')"
    unfolding fuel' by (rule step)
  have c: "count_list (written s') (''$X'' @ [CHR 0x0A])
      = count_list (written s) (''$X'' @ [CHR 0x0A]) + Suc d + 1"
    using count by simp
  from e c show ?case by blast
qed

text \<open>
  Whatever the number \<open>k\<close>, a device that answers \<^verbatim>\<open>error:22\<close> to \<open>k\<close> executions of
  \<^verbatim>\<open>$X\<close> in a row has the command written \<open>k + 1\<close> times, and the call returns the
  answer to the last of them.
\<close>

theorem execute_command_retries_every_time:
  "\<exists>s'. execute_command (k + 4) False (stubborn_device k) fresh_io ''$X'' = Some (Inr (Text ''ok''), s')
        \<and> count_list (written s') (''$X'' @ [CHR 0x0A]) = k + 1"
  using stubborn_rounds [of fresh_io 0 k k] by (simp add: fresh_io_def)

text \<open>
  A lowered text has no \<^verbatim>\<open>Idle\<close> in it. So for a command that does not start with
  \<^verbatim>\<open>$\<close>, a first answer with \<^verbatim>\<open>error\<close> in it (as \<^verbatim>\<open>error:22\<close> has) is raised by the
  wait, and nothing more is written.
\<close>

lemma lower_char_not_upper_I: "lower_char c \<noteq> CHR ''I''"
  by (simp add: lower_char_def)

lemma starts_with_hd: "starts_with s (c # p) \<Longrightarrow> c \<in> set s"
  by (cases s) auto

lemma contains_hd: "contains s (c # p) \<Longrightarrow> c \<in> set s"
  by (induction s) (auto dest: starts_with_hd)

lemma lower_never_idle: "\<not> contains (lower raw) ''Idle''"
proof
  assume "contains (lower raw) ''Idle''"
  then have "CHR ''I'' \<in> set (lower raw)" by (auto dest: contains_hd)
  then obtain c where "lower_char c = CHR ''I''" by (auto simp: lower_def)
  then show False by (simp add: lower_char_not_upper_I)
qed

lemma motion_command_error_not_retried:
  assumes "\<not> starts_with command ''$''"
    and "ser_write dev s (command @ [CHR 0x0A]) = (None, s1)"
    and "mill_read dev s1 = (raw, s2)"
    and "contains (lower raw) ''error''"
  shows "\<exists>msg s3. execute_command (Suc (Suc fuel)) interactive dev s command
           = Some (Inl (CommandExecutionError msg), s3) \<and> written s3 = written s1"
proof -
  from assms(1) have "command \<noteq> ''$$''" by auto
  moreover have "\<not> contains (lower raw) ''Idle''" by (rule lower_never_idle)
  ultimately show ?thesis
    using assms
    by (auto simp: wait_for_completion_def time_time_def command_error_def mill_read_def
        split: prod.splits)
qed

end
